theory Spec2Isabelle
  imports Main "HOL-Library.Sublist"
begin

section \<open>JavaScript values used by the scraper\<close>

text \<open>
  The scraper agent (the class \<open>ScraperAgent\<close>) and the single-URL callable
  (\<open>web-scraper.js\<close>) are embedded function by function.  A JavaScript string is a
  \<open>string\<close>; each \<open>char\<close> stands for one UTF-16 code unit below 256 (the
  Latin-1 range), which is the range all the functions below are written for.  A thrown
  exception or rejected promise is \<open>Inl e\<close> of a sum type, a returned value is
  \<open>Inr v\<close>.  Every collaborator that lives outside the sources (the network, the
  document store, the storage bucket, the browser, the summarization back ends, the
  clock) is a field of an environment record that says what that call returns.
\<close>

datatype js_error =
    Error string
  | TypeError string
  | ReferenceError string
  | SyntaxError string

fun message :: "js_error \<Rightarrow> string" where
  "message (Error m) = m"
| "message (TypeError m) = m"
| "message (ReferenceError m) = m"
| "message (SyntaxError m) = m"

subsection \<open>Characters\<close>

definition code :: "char \<Rightarrow> nat" where
  "code c = of_char c"

text \<open>\<open>WhiteSpace\<close> and \<open>LineTerminator\<close> code units below 256: TAB, LF, VT, FF,
  CR, SP and NBSP.  They are what \<open>trim\<close> strips and what \<open>\s\<close> matches.\<close>

definition isSpace :: "char \<Rightarrow> bool" where
  "isSpace c = (code c \<in> {9, 10, 11, 12, 13, 32, 160})"

text \<open>The word characters of \<open>\b\<close>: \<open>[A-Za-z0-9_]\<close>.\<close>

definition isWordChar :: "char \<Rightarrow> bool" where
  "isWordChar c = (let n = code c in
     (48 \<le> n \<and> n \<le> 57) \<or> (65 \<le> n \<and> n \<le> 90) \<or> n = 95 \<or> (97 \<le> n \<and> n \<le> 122))"

text \<open>Upper-case letters below 256 are A-Z and U+00C0..U+00DE without the
  multiplication sign U+00D7; the lower-case partner is 32 above, which is bit 5.\<close>

definition isUpper :: "char \<Rightarrow> bool" where
  "isUpper c = (let n = code c in
     (65 \<le> n \<and> n \<le> 90) \<or> (192 \<le> n \<and> n \<le> 222 \<and> n \<noteq> 215))"

definition isLowerPaired :: "char \<Rightarrow> bool" where
  "isLowerPaired c = (let n = code c in
     (97 \<le> n \<and> n \<le> 122) \<or> (224 \<le> n \<and> n \<le> 254 \<and> n \<noteq> 247))"

fun setBit5 :: "bool \<Rightarrow> char \<Rightarrow> char" where
  "setBit5 b (Char b0 b1 b2 b3 b4 b5 b6 b7) = Char b0 b1 b2 b3 b4 b b6 b7"

definition toLowerChar :: "char \<Rightarrow> char" where
  "toLowerChar c = (if isUpper c then setBit5 True c else c)"

text \<open>\<open>Canonicalize\<close> of a case-insensitive, non-unicode regular expression maps a
  code unit to its upper-case partner when that is a single code unit.  The partners of
  U+00B5 and U+00FF lie above 255 and those of U+00DF are two letters, so among code
  units below 256 each of the three is canonical-equal to itself only.\<close>

definition canon :: "char \<Rightarrow> char" where
  "canon c = (if isLowerPaired c then setBit5 False c else c)"

subsection \<open>Strings\<close>

definition toLowerCase :: "string \<Rightarrow> string" where
  "toLowerCase s = map toLowerChar s"

fun startsWith :: "string \<Rightarrow> string \<Rightarrow> bool" where
  "startsWith s [] = True"
| "startsWith [] (p # ps) = False"
| "startsWith (c # cs) (p # ps) = (c = p \<and> startsWith cs ps)"

text \<open>\<open>s.includes(t)\<close>: \<open>t\<close> occurs in \<open>s\<close> as a contiguous substring.\<close>

fun includes' :: "string \<Rightarrow> string \<Rightarrow> bool" where
  "includes' [] t = (t = [])"
| "includes' (c # cs) t = (startsWith (c # cs) t \<or> includes' cs t)"

definition trimStart :: "string \<Rightarrow> string" where
  "trimStart s = dropWhile isSpace s"

definition trimEnd :: "string \<Rightarrow> string" where
  "trimEnd s = rev (dropWhile isSpace (rev s))"

definition trim :: "string \<Rightarrow> string" where
  "trim s = trimEnd (trimStart s)"

text \<open>\<open>s.replace(/\s+/g, ' ')\<close>: every maximal run of white space becomes one
  space.\<close>

fun collapseFrom :: "bool \<Rightarrow> string \<Rightarrow> string" where
  "collapseFrom inRun [] = []"
| "collapseFrom inRun (c # cs) =
     (if isSpace c then (if inRun then collapseFrom True cs else CHR '' '' # collapseFrom True cs)
      else c # collapseFrom False cs)"

definition collapseSpaces :: "string \<Rightarrow> string" where
  "collapseSpaces s = collapseFrom False s"

text \<open>\<open>xs.slice(0, e)\<close> for an integer \<open>e\<close>: a negative end counts from the end of
  the array.\<close>

definition slice0 :: "'a list \<Rightarrow> int \<Rightarrow> 'a list" where
  "slice0 xs e = (if e < 0 then take (nat (int (length xs) + e)) xs else take (nat e) xs)"

text \<open>\<open>xs.join(sep)\<close>.\<close>

fun join :: "string \<Rightarrow> string list \<Rightarrow> string" where
  "join sep [] = []"
| "join sep [x] = x"
| "join sep (x # y # ys) = x @ sep @ join sep (y # ys)"

section \<open>The agent's configuration\<close>

text \<open>The constructor reads an options object; an absent option is \<open>None\<close>.
  Numeric options go through \<open>||\<close>, so \<open>0\<close> counts as absent; flags go through
  \<open>!== false\<close>, so only an explicit \<open>false\<close> switches them off.\<close>

record options =
  opt_maxRetries :: "int option"
  opt_retryDelay :: "int option"
  opt_maxContentLength :: "int option"
  opt_usePuppeteer :: "bool option"
  opt_captureScreenshots :: "bool option"
  opt_enableAIExtraction :: "bool option"
  opt_searchEnabled :: "bool option"

record agent =
  maxRetries :: int
  retryDelay :: int
  maxContentLength :: int
  usePuppeteer :: bool
  captureScreenshots :: bool
  enableAIExtraction :: bool
  searchEnabled :: bool

definition orDefault :: "int option \<Rightarrow> int \<Rightarrow> int" where
  "orDefault v d = (case v of None \<Rightarrow> d | Some n \<Rightarrow> if n = 0 then d else n)"

definition notFalse :: "bool option \<Rightarrow> bool" where
  "notFalse v = (v \<noteq> Some False)"

definition constructor :: "options \<Rightarrow> agent" where
  "constructor config = \<lparr>
     maxRetries = orDefault (opt_maxRetries config) 3,
     retryDelay = orDefault (opt_retryDelay config) 1000,
     maxContentLength = orDefault (opt_maxContentLength config) 12000,
     usePuppeteer = notFalse (opt_usePuppeteer config),
     captureScreenshots = notFalse (opt_captureScreenshots config),
     enableAIExtraction = notFalse (opt_enableAIExtraction config),
     searchEnabled = notFalse (opt_searchEnabled config) \<rparr>"

section \<open>The parsed document\<close>

text \<open>
  \<open>cheerio.load(html)\<close> turns markup into a tree.  The parser is a library, so the
  tree it builds is given by the environment; what the scraper does with the tree is
  embedded here.  An element has a lower-case tag name, its attributes in source order
  and its children; a selection (\<open>$(selector)\<close>) is the list of the matching
  elements in document order, each with its path from the root, which is the element's
  identity.
\<close>

datatype node =
    Text string
  | Element string "(string \<times> string) list" "node list"

type_synonym selection = "(nat list \<times> node) list"

fun textOf :: "node list \<Rightarrow> string" where
  "textOf [] = []"
| "textOf (Text t # ns) = t @ textOf ns"
| "textOf (Element tag attrs cs # ns) = textOf cs @ textOf ns"

text \<open>All elements below a list of siblings, in document order (an element before
  its descendants, before its later siblings).\<close>

fun elementsFrom :: "nat list \<Rightarrow> nat \<Rightarrow> node list \<Rightarrow> selection" where
  "elementsFrom pre i [] = []"
| "elementsFrom pre i (Text t # ns) = elementsFrom pre (Suc i) ns"
| "elementsFrom pre i (Element tag attrs cs # ns) =
     (pre @ [i], Element tag attrs cs) # elementsFrom (pre @ [i]) 0 cs
       @ elementsFrom pre (Suc i) ns"

definition allElements :: "node list \<Rightarrow> selection" where
  "allElements doc = elementsFrom [] 0 doc"

text \<open>\<open>$(selector)\<close> and \<open>selection.find(selector)\<close>, for a selector given as a
  predicate on elements.  \<open>find\<close> returns the proper descendants of the selected
  elements, each once, in document order.\<close>

definition select :: "(node \<Rightarrow> bool) \<Rightarrow> node list \<Rightarrow> selection" where
  "select sel doc = filter (\<lambda>(p, n). sel n) (allElements doc)"

definition find' :: "(node \<Rightarrow> bool) \<Rightarrow> node list \<Rightarrow> selection \<Rightarrow> selection" where
  "find' sel doc roots =
     filter (\<lambda>(q, n). sel n \<and> list_ex (\<lambda>(p, r). prefix p q \<and> p \<noteq> q) roots)
       (allElements doc)"

text \<open>\<open>selection.text()\<close>: the text of every selected element, concatenated.\<close>

definition selText :: "selection \<Rightarrow> string" where
  "selText s = concat (map (\<lambda>(p, n). textOf [n]) s)"

text \<open>\<open>$(selector).remove()\<close>: the document without the matching elements and
  what they contain.\<close>

fun remove :: "(node \<Rightarrow> bool) \<Rightarrow> node list \<Rightarrow> node list" where
  "remove sel [] = []"
| "remove sel (Text t # ns) = Text t # remove sel ns"
| "remove sel (Element tag attrs cs # ns) =
     (if sel (Element tag attrs cs) then remove sel ns
      else Element tag attrs (remove sel cs) # remove sel ns)"

subsection \<open>Selectors\<close>

fun tagOf :: "node \<Rightarrow> string option" where
  "tagOf (Text t) = None"
| "tagOf (Element tag attrs cs) = Some tag"

fun attr :: "string \<Rightarrow> node \<Rightarrow> string option" where
  "attr name (Text t) = None"
| "attr name (Element tag attrs cs) = map_of attrs name"

definition hasTag :: "string list \<Rightarrow> node \<Rightarrow> bool" where
  "hasTag tags n = (case tagOf n of None \<Rightarrow> False | Some t \<Rightarrow> t \<in> set tags)"

text \<open>The white-space separated words of a \<open>class\<close> attribute.\<close>

fun wordsFrom :: "string \<Rightarrow> string \<Rightarrow> string list" where
  "wordsFrom acc [] = (if acc = [] then [] else [acc])"
| "wordsFrom acc (c # cs) =
     (if isSpace c then (if acc = [] then wordsFrom [] cs else acc # wordsFrom [] cs)
      else wordsFrom (acc @ [c]) cs)"

definition hasClass :: "string \<Rightarrow> node \<Rightarrow> bool" where
  "hasClass cls n = (case attr ''class'' n of None \<Rightarrow> False | Some v \<Rightarrow> cls \<in> set (wordsFrom [] v))"

definition hasAttr :: "string \<Rightarrow> string \<Rightarrow> node \<Rightarrow> bool" where
  "hasAttr name v n = (attr name n = Some v)"

text \<open>\<open>'script, style, nav, footer, iframe, noscript'\<close>\<close>

definition noise :: "node \<Rightarrow> bool" where
  "noise n = hasTag [''script'', ''style'', ''nav'', ''footer'', ''iframe'', ''noscript''] n"

text \<open>\<open>'main, article, #content, .content, .post, .article'\<close>\<close>

definition semanticContainer :: "node \<Rightarrow> bool" where
  "semanticContainer n =
     (tagOf n \<noteq> None \<and>
      (hasTag [''main'', ''article''] n \<or> hasAttr ''id'' ''content'' n \<or> hasClass ''content'' n
       \<or> hasClass ''post'' n \<or> hasClass ''article'' n))"

text \<open>\<open>'div, section'\<close>\<close>

definition blockContainer :: "node \<Rightarrow> bool" where
  "blockContainer n = hasTag [''div'', ''section''] n"

definition heading :: "node \<Rightarrow> bool" where
  "heading n = hasTag [''h1'', ''h2'', ''h3'', ''h4'', ''h5'', ''h6''] n"

text \<open>\<open>'a[href]'\<close>\<close>

definition anchorWithHref :: "node \<Rightarrow> bool" where
  "anchorWithHref n = (hasTag [''a''] n \<and> attr ''href'' n \<noteq> None)"

text \<open>\<open>selection.attr(name)\<close> reads the first selected element; \<open>a || b\<close> on
  strings takes \<open>b\<close> when \<open>a\<close> is undefined or empty.\<close>

definition selAttr :: "string \<Rightarrow> selection \<Rightarrow> string option" where
  "selAttr name s = (case s of [] \<Rightarrow> None | (p, n) # rest \<Rightarrow> attr name n)"

definition orElse :: "string option \<Rightarrow> string \<Rightarrow> string" where
  "orElse a b = (case a of None \<Rightarrow> b | Some v \<Rightarrow> if v = [] then b else v)"

subsection \<open>Extraction steps of \<open>scrapeWithoutBrowser\<close>\<close>

definition extractTitle :: "node list \<Rightarrow> string" where
  "extractTitle doc = trim (selText (select (hasTag [''title'']) doc))"

definition extractDescription :: "node list \<Rightarrow> string" where
  "extractDescription doc =
     orElse (selAttr ''content'' (select (\<lambda>n. hasTag [''meta''] n \<and> hasAttr ''name'' ''description'' n) doc))
       (orElse (selAttr ''content''
          (select (\<lambda>n. hasTag [''meta''] n \<and> hasAttr ''property'' ''og:description'' n) doc)) [])"

definition textLengthOf :: "nat list \<times> node \<Rightarrow> nat" where
  "textLengthOf el = length (trim (selText [el]))"

text \<open>The \<open>each\<close> callback over \<open>$('div, section')\<close>: the pair is
  \<open>(maxTextLength, maxTextElement)\<close>, replaced only by a strictly longer text.\<close>

fun largestTextContainer :: "nat \<times> selection \<Rightarrow> selection \<Rightarrow> nat \<times> selection" where
  "largestTextContainer best [] = best"
| "largestTextContainer (maxTextLength, maxTextElement) (el # els) =
     (if textLengthOf el > maxTextLength
      then largestTextContainer (textLengthOf el, [el]) els
      else largestTextContainer (maxTextLength, maxTextElement) els)"

text \<open>\<open>mainElement\<close>: the semantic containers when there are any, otherwise the
  result of the scan, which starts from \<open>$('body')\<close> and length 0.\<close>

definition mainElementOf :: "node list \<Rightarrow> selection" where
  "mainElementOf doc =
     (let mainElement = select semanticContainer doc in
      if length mainElement = 0
      then snd (largestTextContainer (0, select (hasTag [''body'']) doc) (select blockContainer doc))
      else mainElement)"

definition headingLevel :: "node \<Rightarrow> nat" where
  "headingLevel n = (case tagOf n of Some [h, d] \<Rightarrow> code d - 48 | _ \<Rightarrow> 0)"

definition extractHeadings :: "node list \<Rightarrow> selection \<Rightarrow> (nat \<times> string) list" where
  "extractHeadings doc mainElement =
     map (\<lambda>el. (headingLevel (snd el), trim (selText [el])))
       (filter (\<lambda>el. trim (selText [el]) \<noteq> []) (find' heading doc mainElement))"

definition extractLinks :: "node list \<Rightarrow> selection \<Rightarrow> (string \<times> string) list" where
  "extractLinks doc mainElement =
     map (\<lambda>el. (orElse (attr ''href'' (snd el)) [], trim (selText [el])))
       (filter (\<lambda>el. orElse (attr ''href'' (snd el)) [] \<noteq> [] \<and> trim (selText [el]) \<noteq> []
                  \<and> \<not> startsWith (orElse (attr ''href'' (snd el)) []) ''#'')
          (find' anchorWithHref doc mainElement))"

section \<open>Keyword scoring\<close>

text \<open>
  Both scrapers count a keyword with
  \<open>textContent.match(new RegExp(`\\b${keyword}\\b`, "gi")) || []\<close>.  The keyword is
  spliced into the pattern as it is, so it is read as regular-expression syntax.  The
  embedding interprets the pattern itself when the keyword is built from ordinary
  characters, the dot and the quantifiers \<open>*\<close>, \<open>+\<close>, \<open>?\<close>; for a keyword that
  uses any other syntax character (\<open>^ $ \ ( ) [ ] { } |\<close>) the count, or the
  \<open>SyntaxError\<close> of the constructor, is what the environment's \<open>regexp_engine\<close>
  says.
\<close>

definition backslash :: char where
  "backslash = CHR 0x5C"

definition isSyntaxChar :: "char \<Rightarrow> bool" where
  "isSyntaxChar c = (c \<in> set ''^$.*+?()[]{}|'' \<or> c = backslash)"

definition isQuantifierChar :: "char \<Rightarrow> bool" where
  "isQuantifierChar c = (c \<in> set ''*+?'')"

definition outsideFragment :: "char \<Rightarrow> bool" where
  "outsideFragment c = (c \<in> set ''^$()[]{}|'' \<or> c = backslash)"

definition inFragment :: "string \<Rightarrow> bool" where
  "inFragment keyword = (\<not> list_ex outsideFragment keyword)"

datatype atom = Lit char | AnyChar

text \<open>The flag of a quantifier says whether it is greedy; \<open>*?\<close>, \<open>+?\<close> and
  \<open>??\<close> are the lazy forms.\<close>

datatype quantifier = Once | ZeroOrMore bool | OneOrMore bool | ZeroOrOne bool

datatype rterm = WordBoundary | Match atom quantifier

definition atomOf :: "char \<Rightarrow> atom" where
  "atomOf c = (if c = CHR ''.'' then AnyChar else Lit c)"

definition quantifierOf :: "char \<Rightarrow> bool \<Rightarrow> quantifier" where
  "quantifierOf q greedy =
     (if q = CHR ''*'' then ZeroOrMore greedy
      else if q = CHR ''+'' then OneOrMore greedy
      else ZeroOrOne greedy)"

text \<open>What the parser of the constructor can find wrong in a pattern of the
  fragment.\<close>

datatype syntax_problem = NothingToRepeat

definition consTerm :: "rterm \<Rightarrow> syntax_problem + rterm list \<Rightarrow> syntax_problem + rterm list" where
  "consTerm t r = (case r of Inl e \<Rightarrow> Inl e | Inr ts \<Rightarrow> Inr (t # ts))"

text \<open>The terms of the keyword.  A quantifier needs an atom right before it: after
  the leading \<open>\b\<close>, or after another quantifier (and its optional lazy mark), there
  is nothing to repeat and the constructor throws.\<close>

fun parseTerms :: "string \<Rightarrow> syntax_problem + rterm list" where
  "parseTerms [] = Inr []"
| "parseTerms (c # cs) =
     (if isQuantifierChar c then Inl NothingToRepeat
      else case cs of
        [] \<Rightarrow> Inr [Match (atomOf c) Once]
      | q # rest \<Rightarrow>
          if isQuantifierChar q then
            (case rest of
               [] \<Rightarrow> Inr [Match (atomOf c) (quantifierOf q True)]
             | l # rest' \<Rightarrow>
                 if l = CHR ''?'' then consTerm (Match (atomOf c) (quantifierOf q False)) (parseTerms rest')
                 else consTerm (Match (atomOf c) (quantifierOf q True)) (parseTerms rest))
          else consTerm (Match (atomOf c) Once) (parseTerms cs))"

text \<open>The pattern \<open>`\\b${keyword}\\b`\<close> as the constructor receives it.\<close>

definition keywordPattern :: "string \<Rightarrow> string" where
  "keywordPattern keyword = [backslash, CHR ''b''] @ keyword @ [backslash, CHR ''b'']"

text \<open>The \<open>SyntaxError\<close> of the constructor names the pattern between slashes, the
  flags and the problem, as Node.js words it.\<close>

fun invalidRegExp :: "string \<Rightarrow> string \<Rightarrow> syntax_problem \<Rightarrow> js_error" where
  "invalidRegExp pattern flags NothingToRepeat =
     SyntaxError (''Invalid regular expression: /'' @ pattern @ ''/'' @ flags @ '': Nothing to repeat'')"

text \<open>\<open>new RegExp(`\\b${keyword}\\b`, "gi")\<close> for a keyword of the fragment.\<close>

definition compileKeyword :: "string \<Rightarrow> js_error + rterm list" where
  "compileKeyword keyword =
     (case parseTerms keyword of
        Inl problem \<Rightarrow> Inl (invalidRegExp (keywordPattern keyword) ''gi'' problem)
      | Inr ts \<Rightarrow> Inr (WordBoundary # ts @ [WordBoundary]))"

text \<open>Under the flag \<open>i\<close> two code units match when their canonical forms are
  equal; the dot matches everything but LF and CR.\<close>

fun atomMatches :: "atom \<Rightarrow> char \<Rightarrow> bool" where
  "atomMatches (Lit a) c = (canon a = canon c)"
| "atomMatches AnyChar c = (code c \<noteq> 10 \<and> code c \<noteq> 13)"

definition isWordOpt :: "char option \<Rightarrow> bool" where
  "isWordOpt c = (case c of None \<Rightarrow> False | Some x \<Rightarrow> isWordChar x)"

text \<open>\<open>\b\<close> holds between the previous and the next code unit when exactly one of
  them is a word character (the ends of the text count as non-word).\<close>

definition isBoundary :: "char option \<Rightarrow> string \<Rightarrow> bool" where
  "isBoundary prev s = (isWordOpt prev \<noteq> isWordOpt (case s of [] \<Rightarrow> None | c # cs \<Rightarrow> Some c))"

fun firstSome :: "'a option list \<Rightarrow> 'a option" where
  "firstSome [] = None"
| "firstSome (None # xs) = firstSome xs"
| "firstSome (Some x # xs) = Some x"

text \<open>The numbers of repetitions a quantified atom may take when \<open>run\<close> code units
  in a row match it, in the order the matcher tries them.\<close>

fun repetitions :: "quantifier \<Rightarrow> nat \<Rightarrow> nat list" where
  "repetitions Once run = (if 1 \<le> run then [1] else [])"
| "repetitions (ZeroOrMore greedy) run = (if greedy then rev [0..<Suc run] else [0..<Suc run])"
| "repetitions (OneOrMore greedy) run = (if greedy then rev [1..<Suc run] else [1..<Suc run])"
| "repetitions (ZeroOrOne greedy) run =
     (if 1 \<le> run then (if greedy then [1, 0] else [0, 1]) else [0])"

definition prevAfter :: "char option \<Rightarrow> string \<Rightarrow> nat \<Rightarrow> char option" where
  "prevAfter prev s k = (if k = 0 then prev else Some (s ! (k - 1)))"

text \<open>One attempt of the backtracking matcher at a position: \<open>prev\<close> is the code
  unit before the position, \<open>s\<close> the text from the position on.  The result is the
  length of the match.\<close>

fun matchHere :: "rterm list \<Rightarrow> char option \<Rightarrow> string \<Rightarrow> nat option" where
  "matchHere [] prev s = Some 0"
| "matchHere (WordBoundary # ts) prev s = (if isBoundary prev s then matchHere ts prev s else None)"
| "matchHere (Match a q # ts) prev s =
     firstSome (map (\<lambda>k. map_option (\<lambda>n. k + n) (matchHere ts (prevAfter prev s k) (drop k s)))
       (repetitions q (length (takeWhile (atomMatches a) s))))"

text \<open>\<open>text.match(regex)\<close> with the flag \<open>g\<close>: search from \<open>lastIndex\<close> for the
  first position with a match, count it, go on behind it (one further when the match is
  empty), until no position is left.  The result is the length of the array of
  matches, with \<open>|| []\<close> turning \<open>null\<close> into length 0.  \<open>matcher prev s\<close> is one
  attempt of the regular expression at a position.\<close>

fun matchAll :: "(char option \<Rightarrow> string \<Rightarrow> nat option) \<Rightarrow> char option \<Rightarrow> string \<Rightarrow> nat" where
  "matchAll matcher prev [] = (if matcher prev [] = None then 0 else 1)"
| "matchAll matcher prev (c # cs) =
     (case matcher prev (c # cs) of
        None \<Rightarrow> matchAll matcher (Some c) cs
      | Some 0 \<Rightarrow> Suc (matchAll matcher (Some c) cs)
      | Some (Suc k) \<Rightarrow> Suc (matchAll matcher (Some ((c # cs) ! k)) (drop k cs)))"

definition scanFrom :: "rterm list \<Rightarrow> char option \<Rightarrow> string \<Rightarrow> nat" where
  "scanFrom regex prev s = matchAll (matchHere regex) prev s"

text \<open>
  The object \<open>keywordMatches\<close> is the list of its properties in the order in which
  \<open>Object.values\<close> and \<open>JSON.stringify\<close> go through them: first the keys that are
  array indices (decimal digits without a leading zero, below \<open>2^32 - 1\<close>), ascending,
  then all other keys in the order of their creation.
\<close>

definition isDigit :: "char \<Rightarrow> bool" where
  "isDigit c = (48 \<le> code c \<and> code c \<le> 57)"

definition indexValue :: "string \<Rightarrow> int" where
  "indexValue k = foldl (\<lambda>n c. 10 * n + (int (code c) - 48)) 0 k"

definition isArrayIndex :: "string \<Rightarrow> bool" where
  "isArrayIndex k =
     (case k of
        [] \<Rightarrow> False
      | c # cs \<Rightarrow> list_all isDigit k \<and> (c \<noteq> CHR ''0'' \<or> cs = []) \<and> indexValue k < 4294967295)"

text \<open>An existing key keeps its place and gets the new value; a new key that is not
  an array index goes to the end.\<close>

fun updateKey :: "string \<Rightarrow> nat \<Rightarrow> (string \<times> nat) list \<Rightarrow> (string \<times> nat) list" where
  "updateKey k v [] = [(k, v)]"
| "updateKey k v ((k', v') # kvs) = (if k' = k then (k, v) # kvs else (k', v') # updateKey k v kvs)"

text \<open>A new key that is an array index goes behind the smaller array indices.\<close>

fun insertIndex :: "string \<Rightarrow> nat \<Rightarrow> (string \<times> nat) list \<Rightarrow> (string \<times> nat) list" where
  "insertIndex k v [] = [(k, v)]"
| "insertIndex k v ((k', v') # kvs) =
     (if isArrayIndex k' \<and> indexValue k' < indexValue k then (k', v') # insertIndex k v kvs
      else (k, v) # (k', v') # kvs)"

text \<open>Assignment \<open>obj[key] = v\<close> on an object literal.  The key \<open>__proto__\<close>
  reaches the setter of \<open>Object.prototype\<close>, which ignores a number, so no property
  is created.\<close>

definition objSet :: "(string \<times> nat) list \<Rightarrow> string \<Rightarrow> nat \<Rightarrow> (string \<times> nat) list" where
  "objSet obj k v =
     (if k = ''__proto__'' then obj
      else if isArrayIndex k \<and> map_of obj k = None then insertIndex k v obj
      else updateKey k v obj)"

text \<open>\<open>Object.values(keywordMatches).reduce((a, b) => a + b, 0)\<close>\<close>

definition totalMatches :: "(string \<times> nat) list \<Rightarrow> nat" where
  "totalMatches obj = fold (\<lambda>b a. a + b) (map snd obj) 0"

section \<open>The environment\<close>

record response =
  resp_data :: string
  resp_status :: nat
  resp_responseUrl :: "string option"

text \<open>What a page shows after \<open>page.goto\<close>: \<open>page.title()\<close>, the description
  (already \<open>""\<close> when the \<open>$eval\<close> was rejected) and \<open>document.body.innerText\<close>.
  The screenshot and \<open>page.content()\<close> are taken too; the first is only handed to
  the storage, the second is not used.\<close>

record rendered =
  page_title :: string
  page_description :: string
  page_innerText :: string

text \<open>The steps of \<open>runScrapingJob\<close> that talk to the document store, the storage
  and the activity log.\<close>

datatype step =
    UpdateRunning | GetJob | SetScrapedData | UploadRawData | UpdateCompleted | LogCompleted
  | UpdateFailed | LogFailed

text \<open>
  One field per collaborator.  \<open>axios_get u i\<close> is the outcome of attempt number
  \<open>i\<close> (from 0) of \<open>axios.get(u)\<close>; \<open>page_render u\<close> is the outcome of the calls
  from \<open>setUserAgent\<close> to \<open>page.evaluate\<close>; \<open>openai_chat\<close> and \<open>generateText\<close>
  get the joined keywords and the truncated text their prompt is built from
  (\<open>generateText\<close> is a method of \<open>BaseAgent\<close>, which is not among the sources);
  \<open>regexp_engine pattern text\<close> is the number of matches of
  \<open>new RegExp(pattern, "gi")\<close> in the text, or the constructor's error; \<open>fault\<close>
  says which store, storage or log call is rejected.
\<close>

record env =
  axios_get :: "string \<Rightarrow> nat \<Rightarrow> js_error + response"
  cheerio_load :: "string \<Rightarrow> node list"
  regexp_engine :: "string \<Rightarrow> string \<Rightarrow> js_error + nat"
  openai_api_key :: bool
  openai_chat :: "string \<Rightarrow> string \<Rightarrow> js_error + string"
  generateText :: "string \<Rightarrow> string \<Rightarrow> js_error + string"
  toISOString :: "string \<Rightarrow> string"
  puppeteer_launch :: "string \<Rightarrow> js_error option"
  browser_newPage :: "string \<Rightarrow> js_error option"
  page_render :: "string \<Rightarrow> js_error + rendered"
  storage_uploadFile :: "string \<Rightarrow> js_error + string"
  page_close :: "string \<Rightarrow> js_error option"
  browser_close :: "string \<Rightarrow> js_error option"
  logActivity :: "string \<Rightarrow> js_error option"
  serverTimestamp :: string
  fault :: "step \<Rightarrow> js_error option"

section \<open>The per-URL pipeline of the agent\<close>

subsection \<open>The keyword loop\<close>

definition keywordCount :: "env \<Rightarrow> string \<Rightarrow> string \<Rightarrow> js_error + nat" where
  "keywordCount w textContent keyword =
     (if inFragment keyword
      then (case compileKeyword keyword of
              Inl e \<Rightarrow> Inl e
            | Inr regex \<Rightarrow> Inr (scanFrom regex None textContent))
      else regexp_engine w (keywordPattern keyword) textContent)"

fun scoreKeywords ::
  "env \<Rightarrow> string \<Rightarrow> string list \<Rightarrow> (string \<times> nat) list \<Rightarrow> js_error + (string \<times> nat) list" where
  "scoreKeywords w textContent [] keywordMatches = Inr keywordMatches"
| "scoreKeywords w textContent (keyword # rest) keywordMatches =
     (case keywordCount w textContent keyword of
        Inl e \<Rightarrow> Inl e
      | Inr n \<Rightarrow> scoreKeywords w textContent rest (objSet keywordMatches keyword n))"

text \<open>A \<open>PageResult\<close> is a plain object; a field the object literal does not list
  is \<open>None\<close>.  A heading is \<open>{level, content}\<close>, a link \<open>{href, text}\<close>.\<close>

record page_result =
  url :: string
  success :: bool
  title :: "string option"
  description :: "string option"
  timestamp :: "string option"
  mainContent :: "string option"
  keywordMatches :: "(string \<times> nat) list option"
  totalKeywordMatches :: "nat option"
  textLength :: "nat option"
  headings :: "(nat \<times> string) list option"
  links :: "(string \<times> string) list option"
  method' :: "string option"
  screenshotUrl :: "string option"
  error :: "string option"

definition emptyResult :: "string \<Rightarrow> bool \<Rightarrow> page_result" where
  "emptyResult u ok = \<lparr> url = u, success = ok, title = None, description = None,
     timestamp = None, mainContent = None, keywordMatches = None, totalKeywordMatches = None,
     textLength = None, headings = None, links = None, method' = None, screenshotUrl = None,
     error = None \<rparr>"

subsection \<open>\<open>extractMainContent\<close>\<close>

definition truncateText :: "agent \<Rightarrow> string \<Rightarrow> string" where
  "truncateText this fullText =
     (if int (length fullText) > maxContentLength this
      then take (nat (maxContentLength this)) fullText @ ''...''
      else fullText)"

definition extractMainContent :: "env \<Rightarrow> agent \<Rightarrow> string \<Rightarrow> string list \<Rightarrow> js_error + string" where
  "extractMainContent w this fullText keywords =
     (let truncatedText = truncateText this fullText;
          fallback = generateText w (join '', '' keywords) truncatedText
      in if openai_api_key w
         then (case openai_chat w (join '', '' keywords) truncatedText of
                 Inr content \<Rightarrow> Inr content
               | Inl e \<Rightarrow> fallback)
         else fallback)"

subsection \<open>\<open>scrapeWithoutBrowser\<close>\<close>

text \<open>The retry loop.  \<open>retries\<close> counts the failed attempts, so it is also the
  number of the next attempt.  The loop ends with the response, or by rethrowing the
  error of the attempt that used up the budget; when the budget is not positive it ends
  at once and \<open>response\<close> stays undefined (\<open>None\<close>).  The waiting between attempts
  (\<open>retryDelay * 2 ^ retries\<close> milliseconds) changes no value and is left out, and so
  is the user agent drawn at random before the loop.\<close>

function fetchWithRetries :: "env \<Rightarrow> agent \<Rightarrow> string \<Rightarrow> nat \<Rightarrow> js_error + response option" where
  "fetchWithRetries w this u retries =
     (if int retries < maxRetries this
      then (case axios_get w u retries of
              Inr response \<Rightarrow> Inr (Some response)
            | Inl e \<Rightarrow>
                if int (Suc retries) \<ge> maxRetries this then Inl e
                else fetchWithRetries w this u (Suc retries))
      else Inr None)"
  by pat_completeness auto
termination
  by (relation "measure (\<lambda>(w, this, u, retries). nat (maxRetries this - int retries))") auto

declare fetchWithRetries.simps [simp del]

definition readOfUndefined :: "string \<Rightarrow> js_error" where
  "readOfUndefined prop =
     TypeError (''Cannot read properties of undefined (reading '' @ [CHR 0x27] @ prop @ [CHR 0x27] @ '')'')"

definition failedResult :: "env \<Rightarrow> string \<Rightarrow> js_error \<Rightarrow> page_result" where
  "failedResult w u e = (emptyResult u False)\<lparr> error := Some (message e),
     timestamp := Some (toISOString w u) \<rparr>"

text \<open>The \<open>try\<close> block: \<open>Inl\<close> is what reaches the \<open>catch\<close>.\<close>

definition scrapeWithoutBrowser_try ::
  "env \<Rightarrow> agent \<Rightarrow> string \<Rightarrow> string list \<Rightarrow> js_error + page_result" where
  "scrapeWithoutBrowser_try w this u keywords =
     (case fetchWithRetries w this u 0 of
        Inl e \<Rightarrow> Inl e
      | Inr None \<Rightarrow> Inl (readOfUndefined ''data'')
      | Inr (Some response) \<Rightarrow>
          let loaded = cheerio_load w (resp_data response);
              title' = extractTitle loaded;
              description' = extractDescription loaded;
              doc = remove noise loaded;
              mainElement = mainElementOf doc;
              textContent = collapseSpaces (trim (selText mainElement));
              headings' = extractHeadings doc mainElement;
              links' = extractLinks doc mainElement
          in (case scoreKeywords w textContent keywords [] of
                Inl e \<Rightarrow> Inl e
              | Inr keywordMatches' \<Rightarrow>
                  (case (if enableAIExtraction this
                         then extractMainContent w this textContent keywords
                         else Inr textContent) of
                     Inl e \<Rightarrow> Inl e
                   | Inr mainContent' \<Rightarrow>
                       Inr ((emptyResult u True)\<lparr>
                         title := Some title',
                         description := Some description',
                         timestamp := Some (toISOString w u),
                         mainContent := Some mainContent',
                         keywordMatches := Some keywordMatches',
                         totalKeywordMatches := Some (totalMatches keywordMatches'),
                         textLength := Some (length textContent),
                         headings := Some headings',
                         links := Some (slice0 links' 20),
                         method' := Some ''lightweight'' \<rparr>))))"

definition scrapeWithoutBrowser :: "env \<Rightarrow> agent \<Rightarrow> string \<Rightarrow> string list \<Rightarrow> page_result" where
  "scrapeWithoutBrowser w this u keywords =
     (case scrapeWithoutBrowser_try w this u keywords of
        Inr result \<Rightarrow> result
      | Inl e \<Rightarrow> (failedResult w u e)\<lparr> method' := Some ''lightweight'' \<rparr>)"

subsection \<open>\<open>scrapePage\<close>\<close>

definition scrapePage_try ::
  "env \<Rightarrow> agent \<Rightarrow> string \<Rightarrow> string list \<Rightarrow> js_error + page_result" where
  "scrapePage_try w this u keywords =
     (case page_render w u of
        Inl e \<Rightarrow> Inl e
      | Inr page \<Rightarrow>
          (case extractMainContent w this (page_innerText page) keywords of
             Inl e \<Rightarrow> Inl e
           | Inr mainContent' \<Rightarrow>
               (case scoreKeywords w (page_innerText page) keywords [] of
                  Inl e \<Rightarrow> Inl e
                | Inr keywordMatches' \<Rightarrow>
                    (case storage_uploadFile w u of
                       Inl e \<Rightarrow> Inl e
                     | Inr screenshotUrl' \<Rightarrow>
                         Inr ((emptyResult u True)\<lparr>
                           title := Some (page_title page),
                           description := Some (page_description page),
                           timestamp := Some (toISOString w u),
                           mainContent := Some mainContent',
                           keywordMatches := Some keywordMatches',
                           totalKeywordMatches := Some (totalMatches keywordMatches'),
                           textLength := Some (length (page_innerText page)),
                           screenshotUrl := Some screenshotUrl' \<rparr>)))))"

text \<open>\<open>browser.newPage()\<close> stands before the \<open>try\<close>, and \<open>page.close()\<close> in the
  \<open>finally\<close>: a rejection of either leaves \<open>scrapePage\<close> as an exception.\<close>

definition scrapePage :: "env \<Rightarrow> agent \<Rightarrow> string \<Rightarrow> string list \<Rightarrow> js_error + page_result" where
  "scrapePage w this u keywords =
     (case browser_newPage w u of
        Some e \<Rightarrow> Inl e
      | None \<Rightarrow>
          let result = (case scrapePage_try w this u keywords of
                          Inr r \<Rightarrow> r
                        | Inl e \<Rightarrow> failedResult w u e)
          in (case page_close w u of
                Some e \<Rightarrow> Inl e
              | None \<Rightarrow> Inr result))"

subsection \<open>\<open>scrapeUrl\<close>: the choice between the two\<close>

datatype strategy = Lightweight | Rendered

definition selectStrategy :: "agent \<Rightarrow> string \<Rightarrow> strategy" where
  "selectStrategy this u =
     (if \<not> usePuppeteer this \<or> includes' u ''wikipedia.org'' \<or> includes' u ''britannica.com''
      then Lightweight else Rendered)"

text \<open>\<open>browser\<close> says whether the caller passed a browser; the default is
  \<open>null\<close>, and then one is launched for this page and closed after it.\<close>

definition scrapeUrl ::
  "env \<Rightarrow> agent \<Rightarrow> string \<Rightarrow> string list \<Rightarrow> bool \<Rightarrow> js_error + page_result" where
  "scrapeUrl w this u keywords browser =
     (case selectStrategy this u of
        Lightweight \<Rightarrow> Inr (scrapeWithoutBrowser w this u keywords)
      | Rendered \<Rightarrow>
          if \<not> browser
          then (case puppeteer_launch w u of
                  Some e \<Rightarrow> Inl e
                | None \<Rightarrow>
                    (case scrapePage w this u keywords of
                       Inl e \<Rightarrow> Inl e
                     | Inr result \<Rightarrow>
                         (case browser_close w u of
                            Some e \<Rightarrow> Inl e
                          | None \<Rightarrow> Inr result)))
          else scrapePage w this u keywords)"

section \<open>The job controller\<close>

text \<open>A document of the collection \<open>scrapingJobs\<close>.  \<open>startScraping\<close> writes
  \<open>urls\<close>, \<open>keywords\<close>, \<open>taskId\<close> and the status \<open>queued\<close>; the other fields
  are absent until an update sets them.\<close>

record job =
  urls :: "string list"
  keywords' :: "string list"
  taskId :: "string option"
  status :: string
  startedAt :: "string option"
  endedAt :: "string option"
  scrapedDataId :: "string option"
  rawDataPath :: "string option"
  resultCount :: "nat option"
  successCount :: "nat option"
  jobError :: "string option"

text \<open>A document of the collection \<open>scrapedData\<close>.\<close>

record scraped =
  sd_jobId :: string
  sd_taskId :: "string option"
  sd_results :: "page_result list"
  sd_timestamp :: string
  sd_autoProcess :: bool

text \<open>The document store, the storage bucket (a file holds the serialized result
  list) and the activity log.\<close>

record store =
  scrapingJobs :: "string \<rightharpoonup> job"
  scrapedData :: "string \<rightharpoonup> scraped"
  files :: "string \<rightharpoonup> page_result list"
  activities :: "string list"

text \<open>\<open>doc(id).update(fields)\<close> is rejected when the call fails or the document
  does not exist.\<close>

definition updateJob ::
  "env \<Rightarrow> step \<Rightarrow> string \<Rightarrow> (job \<Rightarrow> job) \<Rightarrow> store \<Rightarrow> js_error + store" where
  "updateJob w s jobId f db =
     (case fault w s of
        Some e \<Rightarrow> Inl e
      | None \<Rightarrow>
          (case scrapingJobs db jobId of
             None \<Rightarrow> Inl (Error ''No document to update'')
           | Some j \<Rightarrow> Inr (db\<lparr> scrapingJobs := (scrapingJobs db)(jobId \<mapsto> f j) \<rparr>)))"

text \<open>\<open>doc(id).get()\<close> and \<open>jobDoc.data()\<close>; for a missing document \<open>data()\<close> is
  undefined and reading \<open>jobData.urls\<close> throws.\<close>

definition getJob :: "env \<Rightarrow> string \<Rightarrow> store \<Rightarrow> js_error + job" where
  "getJob w jobId db =
     (case fault w GetJob of
        Some e \<Rightarrow> Inl e
      | None \<Rightarrow>
          (case scrapingJobs db jobId of
             None \<Rightarrow> Inl (readOfUndefined ''urls'')
           | Some j \<Rightarrow> Inr j))"

definition setScrapedData :: "env \<Rightarrow> string \<Rightarrow> scraped \<Rightarrow> store \<Rightarrow> js_error + store" where
  "setScrapedData w docId d db =
     (case fault w SetScrapedData of
        Some e \<Rightarrow> Inl e
      | None \<Rightarrow> Inr (db\<lparr> scrapedData := (scrapedData db)(docId \<mapsto> d) \<rparr>))"

definition uploadRawData :: "env \<Rightarrow> string \<Rightarrow> page_result list \<Rightarrow> store \<Rightarrow> js_error + store" where
  "uploadRawData w path content db =
     (case fault w UploadRawData of
        Some e \<Rightarrow> Inl e
      | None \<Rightarrow> Inr (db\<lparr> files := (files db)(path \<mapsto> content) \<rparr>))"

definition logJobActivity :: "env \<Rightarrow> step \<Rightarrow> string \<Rightarrow> store \<Rightarrow> js_error + store" where
  "logJobActivity w s msg db =
     (case fault w s of
        Some e \<Rightarrow> Inl e
      | None \<Rightarrow> Inr (db\<lparr> activities := activities db @ [msg] \<rparr>))"

text \<open>The loop over \<open>jobData.urls\<close>: the result of \<open>scrapeUrl(url, keywords)\<close>
  is pushed, and for a rejected call the object \<open>{url, success: false, error}\<close>.\<close>

definition scrapeOne :: "env \<Rightarrow> agent \<Rightarrow> string list \<Rightarrow> string \<Rightarrow> page_result" where
  "scrapeOne w this kws u =
     (case scrapeUrl w this u kws False of
        Inr pageData \<Rightarrow> pageData
      | Inl pageError \<Rightarrow> (emptyResult u False)\<lparr> error := Some (message pageError) \<rparr>)"

fun scrapeAll :: "env \<Rightarrow> agent \<Rightarrow> string list \<Rightarrow> string list \<Rightarrow> page_result list \<Rightarrow> page_result list" where
  "scrapeAll w this kws [] scrapedData' = scrapedData'"
| "scrapeAll w this kws (u # rest) scrapedData' =
     scrapeAll w this kws rest (scrapedData' @ [scrapeOne w this kws u])"

text \<open>The names that are bound where \<open>await browser.close()\<close> stands in
  \<open>runScrapingJob\<close>: the parameter, the constants of the \<open>try\<close> block declared
  before it, and the bindings of the module.  The global object of Node.js has no
  property \<open>browser\<close> either, so reading a name outside this list throws.\<close>

definition runScrapingJob_scope :: "string list" where
  "runScrapingJob_scope =
     [''jobId'', ''jobDoc'', ''jobData'', ''scrapedData'',
      ''BaseAgent'', ''puppeteer'', ''admin'', ''db'', ''storage'', ''scheduler'', ''config'',
      ''cheerio'', ''axios'', ''ScraperAgent'', ''scraperAgent'']"

definition resolveIdentifier :: "string list \<Rightarrow> string \<Rightarrow> js_error option" where
  "resolveIdentifier scope name =
     (if name \<in> set scope then None else Some (ReferenceError (name @ '' is not defined'')))"

text \<open>The \<open>try\<close> block of \<open>runScrapingJob\<close>.  The store is returned with every
  write that happened before the block ended, next to the error that ended it.\<close>

definition runScrapingJob_try :: "env \<Rightarrow> agent \<Rightarrow> string \<Rightarrow> store \<Rightarrow> store \<times> js_error option" where
  "runScrapingJob_try w this jobId db =
     (case updateJob w UpdateRunning jobId
             (\<lambda>j. j\<lparr> status := ''running'', startedAt := Some (serverTimestamp w) \<rparr>) db of
        Inl e \<Rightarrow> (db, Some e)
      | Inr db1 \<Rightarrow>
          (case getJob w jobId db1 of
             Inl e \<Rightarrow> (db1, Some e)
           | Inr jobData \<Rightarrow>
               let scrapedData' = scrapeAll w this (keywords' jobData) (urls jobData) [] in
               (case resolveIdentifier runScrapingJob_scope ''browser'' of
                  Some e \<Rightarrow> (db1, Some e)
                | None \<Rightarrow>
                    let scrapedDataId' = ''scrape_result_'' @ jobId in
                    (case setScrapedData w scrapedDataId'
                            \<lparr> sd_jobId = jobId, sd_taskId = taskId jobData,
                              sd_results = scrapedData', sd_timestamp = serverTimestamp w,
                              sd_autoProcess = True \<rparr> db1 of
                       Inl e \<Rightarrow> (db1, Some e)
                     | Inr db2 \<Rightarrow>
                         let rawDataPath' = ''scraping/'' @ scrapedDataId' @ ''.json'' in
                         (case uploadRawData w rawDataPath' scrapedData' db2 of
                            Inl e \<Rightarrow> (db2, Some e)
                          | Inr db3 \<Rightarrow>
                              (case updateJob w UpdateCompleted jobId
                                      (\<lambda>j. j\<lparr> status := ''completed'',
                                              scrapedDataId := Some scrapedDataId',
                                              rawDataPath := Some rawDataPath',
                                              endedAt := Some (serverTimestamp w),
                                              resultCount := Some (length scrapedData'),
                                              successCount := Some (length (filter success scrapedData')) \<rparr>)
                                      db3 of
                                 Inl e \<Rightarrow> (db3, Some e)
                               | Inr db4 \<Rightarrow>
                                   (case logJobActivity w LogCompleted ''Scraping job completed'' db4 of
                                      Inl e \<Rightarrow> (db4, Some e)
                                    | Inr db5 \<Rightarrow> (db5, None))))))))"

text \<open>\<open>runScrapingJob\<close>: the \<open>try\<close> block, and on an error the \<open>catch\<close> block,
  which marks the job failed.  The second component is the rejection of the returned
  promise, if the \<open>catch\<close> block itself fails.\<close>

definition runScrapingJob :: "env \<Rightarrow> agent \<Rightarrow> string \<Rightarrow> store \<Rightarrow> store \<times> js_error option" where
  "runScrapingJob w this jobId db =
     (case runScrapingJob_try w this jobId db of
        (db', None) \<Rightarrow> (db', None)
      | (db', Some e) \<Rightarrow>
          (case updateJob w UpdateFailed jobId
                  (\<lambda>j. j\<lparr> status := ''failed'', jobError := Some (message e),
                          endedAt := Some (serverTimestamp w) \<rparr>) db' of
             Inl e' \<Rightarrow> (db', Some e')
           | Inr db1 \<Rightarrow>
               (case logJobActivity w LogFailed ''Scraping job failed'' db1 of
                  Inl e' \<Rightarrow> (db1, Some e')
                | Inr db2 \<Rightarrow> (db2, None))))"

section \<open>URL discovery\<close>

text \<open>The alternatives of \<open>/who is|what is|when did|where is/i\<close>.\<close>

definition interrogatives :: "string list" where
  "interrogatives = [''who is'', ''what is'', ''when did'', ''where is'']"

fun startsWithCI :: "string \<Rightarrow> string \<Rightarrow> bool" where
  "startsWithCI s [] = True"
| "startsWithCI [] (p # ps) = False"
| "startsWithCI (c # cs) (p # ps) = (canon c = canon p \<and> startsWithCI cs ps)"

text \<open>The first alternative, in the order of the pattern, that matches at the start
  of \<open>s\<close>; the result is the length of the match.\<close>

fun matchAltAt :: "string list \<Rightarrow> string \<Rightarrow> nat option" where
  "matchAltAt [] s = None"
| "matchAltAt (a # alts) s = (if startsWithCI s a then Some (length a) else matchAltAt alts s)"

text \<open>The leftmost match: its index and its length.\<close>

fun findAlt :: "string list \<Rightarrow> string \<Rightarrow> (nat \<times> nat) option" where
  "findAlt alts [] = map_option (\<lambda>n. (0, n)) (matchAltAt alts [])"
| "findAlt alts (c # cs) =
     (case matchAltAt alts (c # cs) of
        Some n \<Rightarrow> Some (0, n)
      | None \<Rightarrow> map_option (\<lambda>(i, n). (Suc i, n)) (findAlt alts cs))"

text \<open>\<open>s.replace(regex, '')\<close> without the flag \<open>g\<close>: the leftmost match is cut
  out, nothing else.\<close>

definition removeFirstAlt :: "string list \<Rightarrow> string \<Rightarrow> string" where
  "removeFirstAlt alts s = (case findAlt alts s of None \<Rightarrow> s | Some (i, n) \<Rightarrow> take i s @ drop (i + n) s)"

text \<open>\<open>encodeURIComponent\<close>: letters, digits and \<open>- _ . ! ~ * ' ( )\<close> stay, every
  other code unit becomes the percent-escaped bytes of its UTF-8 form (one byte below
  128, two bytes from 128 to 255).\<close>

definition unreserved :: "char \<Rightarrow> bool" where
  "unreserved c = (let n = code c in
     (48 \<le> n \<and> n \<le> 57) \<or> (65 \<le> n \<and> n \<le> 90) \<or> (97 \<le> n \<and> n \<le> 122)
     \<or> c \<in> set ''-_.!~*()'' \<or> n = 39)"

definition hexDigit :: "nat \<Rightarrow> char" where
  "hexDigit n = ''0123456789ABCDEF'' ! (n mod 16)"

definition percentByte :: "nat \<Rightarrow> string" where
  "percentByte n = [CHR ''%'', hexDigit (n div 16), hexDigit n]"

definition encodeChar :: "char \<Rightarrow> string" where
  "encodeChar c =
     (if unreserved c then [c]
      else if code c < 128 then percentByte (code c)
      else percentByte (192 + code c div 64) @ percentByte (128 + code c mod 64))"

definition encodeURIComponent :: "string \<Rightarrow> string" where
  "encodeURIComponent s = concat (map encodeChar s)"

text \<open>The \<open>try\<close> block of \<open>searchForUrls\<close>.  \<open>maxResults\<close> is \<open>None\<close> when the
  caller leaves it out, and then it is 3.\<close>

definition searchForUrls_try :: "env \<Rightarrow> string \<Rightarrow> int option \<Rightarrow> js_error + string list" where
  "searchForUrls_try w query maxResults' =
     (let maxResults = (case maxResults' of None \<Rightarrow> 3 | Some n \<Rightarrow> n) in
      case logActivity w ''Searching for URLs'' of
        Some e \<Rightarrow> Inl e
      | None \<Rightarrow>
          let queryLower = toLowerCase query;
              predefinedUrls =
                (if includes' queryLower ''weather'' then [''https://weather.com/'']
                 else if includes' queryLower ''news'' then [''https://news.google.com/'']
                 else if findAlt interrogatives queryLower \<noteq> None then
                   (let topic = trim (removeFirstAlt interrogatives query) in
                    if topic \<noteq> [] then [''https://en.wikipedia.org/wiki/'' @ encodeURIComponent topic]
                    else [])
                 else [])
          in if length predefinedUrls > 0 then Inr (slice0 predefinedUrls maxResults)
             else Inr (slice0
               [''https://en.wikipedia.org/wiki/Special:Search?search='' @ encodeURIComponent query,
                ''https://www.britannica.com/search?query='' @ encodeURIComponent query]
               maxResults))"

text \<open>\<open>searchForUrls\<close>: the \<open>catch\<close> block returns the empty array.\<close>

definition searchForUrls :: "env \<Rightarrow> string \<Rightarrow> int option \<Rightarrow> js_error + string list" where
  "searchForUrls w query maxResults' =
     (case searchForUrls_try w query maxResults' of
        Inl e \<Rightarrow> Inr []
      | Inr found \<Rightarrow> Inr found)"

section \<open>The single-URL callable (\<open>web-scraper.js\<close>)\<close>

text \<open>Decimal digits of a number, for the error messages.\<close>

fun showNat :: "nat \<Rightarrow> string" where
  "showNat n = (if n < 10 then [hexDigit n] else showNat (n div 10) @ [hexDigit (n mod 10)])"

declare showNat.simps [simp del]

definition showInt :: "int \<Rightarrow> string" where
  "showInt i = (if i < 0 then CHR ''-'' # showNat (nat (- i)) else showNat (nat i))"

record scraped_content =
  sc_html :: string
  sc_url :: string
  sc_status :: nat

text \<open>The retry loop of \<open>scrapeUrl\<close> in \<open>web-scraper.js\<close>; \<open>maxRetries\<close> is
  \<open>options.maxRetries || 3\<close>.  A response with a status other than 200 is thrown
  inside the \<open>try\<close> and so is retried like a failed request.  When the budget is
  used up the function throws a new error that quotes the last one.\<close>

definition attemptOf :: "env \<Rightarrow> string \<Rightarrow> nat \<Rightarrow> js_error + scraped_content" where
  "attemptOf w u i =
     (case axios_get w u i of
        Inl e \<Rightarrow> Inl e
      | Inr response \<Rightarrow>
          if resp_status response \<noteq> 200
          then Inl (Error (''HTTP Error: '' @ showNat (resp_status response)))
          else Inr \<lparr> sc_html = resp_data response,
                     sc_url = (case resp_responseUrl response of None \<Rightarrow> u
                               | Some r \<Rightarrow> if r = [] then u else r),
                     sc_status = resp_status response \<rparr>)"

function scrapeUrlLoop :: "env \<Rightarrow> int \<Rightarrow> string \<Rightarrow> nat \<Rightarrow> js_error + scraped_content option" where
  "scrapeUrlLoop w maxRetries'' u retries =
     (if int retries < maxRetries''
      then (case attemptOf w u retries of
              Inr content \<Rightarrow> Inr (Some content)
            | Inl e \<Rightarrow>
                if int (Suc retries) \<ge> maxRetries''
                then Inl (Error (''Failed to scrape URL after '' @ showInt maxRetries''
                                  @ '' attempts: '' @ message e))
                else scrapeUrlLoop w maxRetries'' u (Suc retries))
      else Inr None)"
  by pat_completeness auto
termination
  by (relation "measure (\<lambda>(w, m, u, retries). nat (m - int retries))") auto

declare scrapeUrlLoop.simps [simp del]

definition ws_scrapeUrl :: "env \<Rightarrow> string \<Rightarrow> int option \<Rightarrow> js_error + scraped_content option" where
  "ws_scrapeUrl w u optMaxRetries = scrapeUrlLoop w (orDefault optMaxRetries 3) u 0"

subsection \<open>\<open>extractContent\<close>\<close>

text \<open>\<open>'script, style, nav, footer, iframe, noscript, svg, [role=banner],
  [role=navigation]'\<close>\<close>

definition ws_noise :: "node \<Rightarrow> bool" where
  "ws_noise n =
     (noise n \<or> hasTag [''svg''] n
      \<or> (tagOf n \<noteq> None \<and> (hasAttr ''role'' ''banner'' n \<or> hasAttr ''role'' ''navigation'' n)))"

text \<open>\<open>text.replace(/\\s+/g, ' ')\<close>: in this file the pattern is written with two
  backslashes, so it stands for a backslash followed by one or more letters \<open>s\<close>.\<close>

function replaceBackslashS :: "string \<Rightarrow> string" where
  "replaceBackslashS [] = []"
| "replaceBackslashS (c # cs) =
     (if c = backslash \<and> (case cs of [] \<Rightarrow> False | d # ds \<Rightarrow> d = CHR ''s'')
      then CHR '' '' # replaceBackslashS (dropWhile (\<lambda>d. d = CHR ''s'') cs)
      else c # replaceBackslashS cs)"
  by pat_completeness auto
termination
  by (relation "measure length") (auto simp: less_Suc_eq_le length_dropWhile_le)

record extracted =
  ex_title :: string
  ex_description :: string
  ex_text :: string
  ex_headings :: "(nat \<times> string) list"
  ex_links :: "(string \<times> string) list"
  ex_url :: string

definition extractContent :: "env \<Rightarrow> string \<Rightarrow> string \<Rightarrow> extracted" where
  "extractContent w html u =
     (let doc = remove ws_noise (cheerio_load w html);
          mainElement = mainElementOf doc
      in \<lparr> ex_title = orElse (Some (trim (selText (select (hasTag [''title'']) doc))))
                        (orElse (Some (trim (selText (take 1 (select (hasTag [''h1'']) doc))))) []),
           ex_description = extractDescription doc,
           ex_text = replaceBackslashS (trim (selText mainElement)),
           ex_headings = extractHeadings doc mainElement,
           ex_links = extractLinks doc mainElement,
           ex_url = u \<rparr>)"

subsection \<open>\<open>processWithAI\<close>\<close>

text \<open>The object the function returns.  On success it is the parsed answer of the
  model (whatever fields that has) with \<open>processedAt\<close> and \<open>tokens\<close> added; in the
  \<open>catch\<close> block it is the fixed fallback with the error message.\<close>

record processed =
  summary :: "string option"
  keyPoints :: "string list option"
  topics :: "string list option"
  sentiment :: "string option"
  entities :: "string list option"
  ai_error :: "string option"

definition newline :: string where
  "newline = [CHR 0x0A]"

definition aiContext :: "extracted \<Rightarrow> string \<Rightarrow> string \<Rightarrow> string" where
  "aiContext extractedData u txt =
     newline @ ''URL: '' @ u @ newline @ ''TITLE: '' @ ex_title extractedData @ newline
     @ ''DESCRIPTION: '' @ ex_description extractedData @ newline @ newline
     @ ''CONTENT:'' @ newline @ txt @ newline @ newline @ ''HEADINGS:'' @ newline
     @ join newline (map (\<lambda>(level, content). replicate level CHR ''-'' @ '' '' @ content)
         (ex_headings extractedData)) @ newline"

text \<open>\<open>ai\<close> is the outcome of the completion call and of \<open>JSON.parse\<close> on its
  content, for a given context.\<close>

definition processWithAI ::
  "(string \<Rightarrow> js_error + processed) \<Rightarrow> extracted \<Rightarrow> string \<Rightarrow> int option \<Rightarrow> processed" where
  "processWithAI ai extractedData u optMaxLength =
     (let maxLength = orDefault optMaxLength 9000;
          txt = take (nat maxLength) (ex_text extractedData)
      in case ai (aiContext extractedData u txt) of
           Inr aiResponse \<Rightarrow> aiResponse
         | Inl e \<Rightarrow>
             \<lparr> summary = Some (''Failed to generate AI summary. Original title: ''
                   @ ex_title extractedData @ ''. Description: '' @ ex_description extractedData),
               keyPoints = Some [], topics = Some [], sentiment = Some ''unknown'',
               entities = Some [], ai_error = Some (message e) \<rparr>)"

section \<open>Notions of the specification\<close>

text \<open>
  The specification speaks of the host of a URL, of whole-word occurrences of a keyword
  and of the container with the longest text.  The definitions of this section follow
  its words; the theorems compare them with what the code computes.
\<close>

subsection \<open>The host of a URL and the allow-list of reference domains\<close>








subsection \<open>The two shapes of a page result\<close>

text \<open>A field is populated when the object has it.\<close>

definition successShape :: "page_result \<Rightarrow> bool" where
  "successShape r =
     (success r \<and> title r \<noteq> None \<and> description r \<noteq> None \<and> mainContent r \<noteq> None
      \<and> keywordMatches r \<noteq> None \<and> totalKeywordMatches r \<noteq> None \<and> textLength r \<noteq> None
      \<and> error r = None)"

definition failureShape :: "page_result \<Rightarrow> bool" where
  "failureShape r =
     (\<not> success r \<and> error r \<noteq> None \<and> title r = None \<and> description r = None
      \<and> mainContent r = None \<and> keywordMatches r = None \<and> totalKeywordMatches r = None
      \<and> textLength r = None \<and> headings r = None \<and> links r = None \<and> screenshotUrl r = None)"

text \<open>Two environments are the same for a URL when every collaborator answers the
  same for that URL; what they do for other URLs is free.\<close>

definition sameFor :: "env \<Rightarrow> env \<Rightarrow> string \<Rightarrow> bool" where
  "sameFor w w' u =
     (axios_get w u = axios_get w' u \<and> cheerio_load w = cheerio_load w'
      \<and> regexp_engine w = regexp_engine w' \<and> openai_api_key w = openai_api_key w'
      \<and> openai_chat w = openai_chat w' \<and> generateText w = generateText w'
      \<and> toISOString w u = toISOString w' u \<and> puppeteer_launch w u = puppeteer_launch w' u
      \<and> browser_newPage w u = browser_newPage w' u \<and> page_render w u = page_render w' u
      \<and> storage_uploadFile w u = storage_uploadFile w' u \<and> page_close w u = page_close w' u
      \<and> browser_close w u = browser_close w' u)"

subsection \<open>An unavailable summarization back end\<close>

text \<open>Every summarization stage fails: the chat completion is rejected whatever it is
  asked, and so is \<open>generateText\<close>, with the error \<open>e\<close>.\<close>

definition spec_backendDown :: "env \<Rightarrow> js_error \<Rightarrow> bool" where
  "spec_backendDown w e =
     (\<forall>kws txt. (\<exists>e'. openai_chat w kws txt = Inl e') \<and> generateText w kws txt = Inl e)"

subsection \<open>The container with the longest text\<close>

text \<open>Among the block-level containers, in document order: the greatest trimmed text
  length, and the first container that has it; the document body when no container has
  any text.\<close>

definition spec_longest :: "selection \<Rightarrow> nat" where
  "spec_longest containers = Max (set (0 # map textLengthOf containers))"

definition spec_mainContainer :: "selection \<Rightarrow> selection \<Rightarrow> selection" where
  "spec_mainContainer body containers =
     (if spec_longest containers = 0 then body
      else (case List.find (\<lambda>c. textLengthOf c = spec_longest containers) containers of
              Some c \<Rightarrow> [c]
            | None \<Rightarrow> body))"

subsection \<open>Whole-word occurrences of a keyword\<close>

text \<open>A plain keyword has no character with a meaning in a regular expression.  It
  occurs as a whole word at a position when the text goes on with the keyword there,
  ignoring case, and there is a word boundary directly before it and directly after
  it.  \<open>spec_wholeWord\<close> is the matcher that finds exactly these occurrences.\<close>

definition isPlain :: "string \<Rightarrow> bool" where
  "isPlain keyword = (\<not> list_ex isSyntaxChar keyword)"

definition spec_occursAt :: "string \<Rightarrow> char option \<Rightarrow> string \<Rightarrow> bool" where
  "spec_occursAt keyword prev s =
     (startsWithCI s keyword \<and> isBoundary prev s
      \<and> isBoundary (prevAfter prev s (length keyword)) (drop (length keyword) s))"

definition spec_wholeWord :: "string \<Rightarrow> char option \<Rightarrow> string \<Rightarrow> nat option" where
  "spec_wholeWord keyword prev s = (if spec_occursAt keyword prev s then Some (length keyword) else None)"

text \<open>The occurrences counted from left to right, each search starting behind the
  occurrence found before.\<close>

definition spec_count :: "string \<Rightarrow> string \<Rightarrow> nat" where
  "spec_count txt keyword = matchAll (spec_wholeWord keyword) None txt"

section \<open>Concrete inputs\<close>

text \<open>An agent built with no options, an environment in which every request, every
  page load and both summarizers fail while the store works, and one in which the
  network answers with a page.\<close>

definition defaultOptions :: options where
  "defaultOptions = \<lparr> opt_maxRetries = None, opt_retryDelay = None, opt_maxContentLength = None,
     opt_usePuppeteer = None, opt_captureScreenshots = None, opt_enableAIExtraction = None,
     opt_searchEnabled = None \<rparr>"

definition offlineEnv :: env where
  "offlineEnv = \<lparr>
     axios_get = (\<lambda>u i. Inl (Error ''connect ECONNREFUSED'')),
     cheerio_load = (\<lambda>html. []),
     regexp_engine = (\<lambda>pattern txt. Inr 0),
     openai_api_key = True,
     openai_chat = (\<lambda>kws txt. Inl (Error ''Connection error.'')),
     generateText = (\<lambda>kws txt. Inl (Error ''Service Unavailable'')),
     toISOString = (\<lambda>u. ''2025-01-01T00:00:00.000Z''),
     puppeteer_launch = (\<lambda>u. None),
     browser_newPage = (\<lambda>u. None),
     page_render = (\<lambda>u. Inl (Error ''net::ERR_INTERNET_DISCONNECTED'')),
     storage_uploadFile = (\<lambda>u. Inr ''https://storage.example/shot.png''),
     page_close = (\<lambda>u. None),
     browser_close = (\<lambda>u. None),
     logActivity = (\<lambda>msg. None),
     serverTimestamp = ''2025-01-01T00:00:00Z'',
     fault = (\<lambda>s. None) \<rparr>"

text \<open>The page \<open>samplePage\<close>: a title, a navigation bar, and a body with two
  \<open>div\<close>s, the second with more text, a heading and two links.\<close>

definition samplePage :: "node list" where
  "samplePage =
     [Element ''html'' []
        [Element ''head'' [] [Element ''title'' [] [Text '' Sample page '']],
         Element ''body'' []
           [Element ''nav'' [] [Element ''div'' [] [Text ''a very long navigation bar with many words'']],
            Element ''div'' [] [Text ''short''],
            Element ''div'' []
              [Element ''h2'' [] [Text ''GPT-4 notes''],
               Text '' GPT-4 is here.  GPT-4 rocks. '',
               Element ''a'' [(''href'', ''https://example.org/a'')] [Text ''more''],
               Element ''a'' [(''href'', ''#top'')] [Text ''top'']]]]]"

definition onlineEnv :: env where
  "onlineEnv = offlineEnv \<lparr>
     axios_get := (\<lambda>u i. Inr \<lparr> resp_data = ''<html>'', resp_status = 200, resp_responseUrl = None \<rparr>),
     cheerio_load := (\<lambda>html. samplePage),
     openai_chat := (\<lambda>kws txt. Inr (''Summary about '' @ kws)),
     page_render := (\<lambda>u. Inr \<lparr> page_title = ''Sample page'', page_description = [],
                                page_innerText = ''GPT-4 is here. GPT-4 rocks.'' \<rparr>) \<rparr>"

definition queuedJob :: "string list \<Rightarrow> string list \<Rightarrow> job" where
  "queuedJob us kws = \<lparr> urls = us, keywords' = kws, taskId = None, status = ''queued'',
     startedAt = None, endedAt = None, scrapedDataId = None, rawDataPath = None,
     resultCount = None, successCount = None, jobError = None \<rparr>"

definition storeWith :: "string \<Rightarrow> job \<Rightarrow> store" where
  "storeWith jobId j = \<lparr> scrapingJobs = [jobId \<mapsto> j], scrapedData = Map.empty,
     files = Map.empty, activities = [] \<rparr>"

definition twoUrls :: "string list" where
  "twoUrls = [''https://en.wikipedia.org/wiki/Web_scraping'', ''https://example.com/news'']"

text \<open>A network that times out twice for every URL and answers the third request.\<close>

definition sampleResponse :: response where
  "sampleResponse = \<lparr> resp_data = ''<html>'', resp_status = 200, resp_responseUrl = None \<rparr>"

definition flakyEnv :: env where
  "flakyEnv = onlineEnv \<lparr>
     axios_get := (\<lambda>u i. if i < 2 then Inl (Error ''timeout of 15000ms exceeded'')
                           else Inr sampleResponse) \<rparr>"

text \<open>The same network, but the page \<open>https://example.com/news\<close> does not load in
  the browser.\<close>

definition brokenEnv :: env where
  "brokenEnv = onlineEnv \<lparr>
     page_render := (\<lambda>u. if u = ''https://example.com/news''
                          then Inl (Error ''Navigation timeout of 60000 ms exceeded'')
                          else page_render onlineEnv u) \<rparr>"

text \<open>A page whose only container holds 25 links.\<close>

definition manyLinksPage :: "node list" where
  "manyLinksPage =
     [Element ''html'' []
        [Element ''body'' []
           [Element ''div'' []
              (replicate 25 (Element ''a'' [(''href'', ''https://example.org/x'')] [Text ''x'']))]]]"

definition linksEnv :: env where
  "linksEnv = onlineEnv \<lparr> cheerio_load := (\<lambda>html. manyLinksPage) \<rparr>"

text \<open>The network answers, and both summarizers are down.\<close>

definition summarizerDownEnv :: env where
  "summarizerDownEnv = onlineEnv \<lparr> openai_chat := (\<lambda>kws txt. Inl (Error ''Connection error.'')) \<rparr>"

definition sampleExtracted :: extracted where
  "sampleExtracted = \<lparr> ex_title = ''Sample page'', ex_description = ''A page'',
     ex_text = ''GPT-4 is here. GPT-4 rocks.'', ex_headings = [(2, ''GPT-4 notes'')],
     ex_links = [], ex_url = ''https://example.com/news'' \<rparr>"

text \<open>A page with two containers of equal text length, and a page whose containers
  hold white space only.\<close>

definition tiePage :: "node list" where
  "tiePage =
     [Element ''body'' []
        [Element ''section'' [] [Text ''first''], Element ''div'' [] [Text ''other'']]]"

definition blankPage :: "node list" where
  "blankPage = [Element ''body'' [] [Text ''loose text'', Element ''div'' [] [Text ''   '']]]"

section \<open>Properties of the job controller\<close>

lemma scrapeAll_map: "scrapeAll w this kws us acc = acc @ map (scrapeOne w this kws) us"
  by (induction us arbitrary: acc) auto

lemma url_scrapeWithoutBrowser_try:
  "scrapeWithoutBrowser_try w this u kws = Inr r \<Longrightarrow> url r = u"
  unfolding scrapeWithoutBrowser_try_def Let_def
  by (auto simp: emptyResult_def split: sum.splits option.splits)

lemma url_scrapeWithoutBrowser: "url (scrapeWithoutBrowser w this u kws) = u"
  by (auto simp: scrapeWithoutBrowser_def failedResult_def emptyResult_def
      dest: url_scrapeWithoutBrowser_try split: sum.splits)

lemma url_scrapePage_try: "scrapePage_try w this u kws = Inr r \<Longrightarrow> url r = u"
  unfolding scrapePage_try_def
  by (auto simp: emptyResult_def split: sum.splits)

lemma url_scrapePage: "scrapePage w this u kws = Inr r \<Longrightarrow> url r = u"
  unfolding scrapePage_def Let_def
  by (auto simp: failedResult_def emptyResult_def dest: url_scrapePage_try
      split: sum.splits option.splits)

lemma url_scrapeUrl: "scrapeUrl w this u kws b = Inr r \<Longrightarrow> url r = u"
  unfolding scrapeUrl_def
  by (auto simp: url_scrapeWithoutBrowser dest: url_scrapePage
      split: strategy.splits sum.splits option.splits if_splits)

lemma url_scrapeOne: "url (scrapeOne w this kws u) = u"
  by (auto simp: scrapeOne_def emptyResult_def dest: url_scrapeUrl split: sum.splits)

text \<open>The list the loop builds has one entry per URL, in the order of the URLs.\<close>

lemma scrapeAll_urls: "map url (scrapeAll w this kws us []) = us"
  by (simp add: scrapeAll_map url_scrapeOne comp_def)

lemma scrapeAll_length: "length (scrapeAll w this kws us []) = length us"
  by (simp add: scrapeAll_map)

lemma browser_unbound:
  "resolveIdentifier runScrapingJob_scope ''browser'' = Some (ReferenceError ''browser is not defined'')"
  by (simp add: resolveIdentifier_def runScrapingJob_scope_def)

text \<open>With a working store the \<open>try\<close> block sets the status \<open>running\<close>, runs the
  loop and then stops at \<open>browser.close()\<close>: nothing behind that line is reached,
  whatever the URLs and the outcomes of the scrapes are.\<close>

lemma runScrapingJob_try_stops:
  assumes "fault w = (\<lambda>s. None)" and "scrapingJobs db jobId = Some j"
  shows "runScrapingJob_try w this jobId db =
           (db\<lparr> scrapingJobs := (scrapingJobs db)(jobId \<mapsto>
                   j\<lparr> status := ''running'', startedAt := Some (serverTimestamp w) \<rparr>) \<rparr>,
            Some (ReferenceError ''browser is not defined''))"
  using assms unfolding runScrapingJob_try_def Let_def
  by (simp add: updateJob_def getJob_def browser_unbound)

lemma runScrapingJob_fails:
  assumes "fault w = (\<lambda>s. None)" and "scrapingJobs db jobId = Some j"
  shows "runScrapingJob w this jobId db =
           (db\<lparr> scrapingJobs := (scrapingJobs db)(jobId \<mapsto>
                   j\<lparr> status := ''failed'', startedAt := Some (serverTimestamp w),
                      jobError := Some ''browser is not defined'',
                      endedAt := Some (serverTimestamp w) \<rparr>),
                 activities := activities db @ [''Scraping job failed''] \<rparr>,
            None)"
  using assms unfolding runScrapingJob_def
  by (cases j) (simp add: runScrapingJob_try_stops updateJob_def logJobActivity_def)

subsection \<open>What the job record says after a run\<close>

lemma selectStrategy_wikipedia:
  "selectStrategy this ''https://en.wikipedia.org/wiki/Web_scraping'' = Lightweight"
  by (simp add: selectStrategy_def)

lemma selectStrategy_example:
  "selectStrategy (constructor defaultOptions) ''https://example.com/news'' = Rendered"
  by (simp add: selectStrategy_def constructor_def defaultOptions_def notFalse_def)

lemma fetch_offline:
  "fetchWithRetries offlineEnv (constructor defaultOptions) u 0 = Inl (Error ''connect ECONNREFUSED'')"
  by (simp add: fetchWithRetries.simps offlineEnv_def constructor_def defaultOptions_def orDefault_def)

lemma scrapeWithoutBrowser_offline:
  "success (scrapeWithoutBrowser offlineEnv (constructor defaultOptions) u kws) = False"
  by (simp add: scrapeWithoutBrowser_def scrapeWithoutBrowser_try_def fetch_offline
      failedResult_def emptyResult_def)

lemma scrapePage_offline: "scrapePage offlineEnv this u kws = Inr r \<Longrightarrow> success r = False"
  by (auto simp add: scrapePage_def scrapePage_try_def failedResult_def emptyResult_def offlineEnv_def)

lemma scrapeOne_offline_wikipedia:
  "success (scrapeOne offlineEnv (constructor defaultOptions) kws
     ''https://en.wikipedia.org/wiki/Web_scraping'') = False"
  unfolding scrapeOne_def scrapeUrl_def selectStrategy_wikipedia
  by (simp add: scrapeWithoutBrowser_offline)

lemma scrapeOne_offline_example:
  "success (scrapeOne offlineEnv (constructor defaultOptions) kws ''https://example.com/news'') = False"
  unfolding scrapeOne_def scrapeUrl_def selectStrategy_example
  by (auto simp: emptyResult_def dest: scrapePage_offline split: sum.splits option.splits)

lemma scrapeAll_offline:
  "filter success (scrapeAll offlineEnv (constructor defaultOptions) [] twoUrls []) = []"
  by (simp add: scrapeAll_map twoUrls_def scrapeOne_offline_wikipedia scrapeOne_offline_example)

lemma fault_offlineEnv: "fault offlineEnv = (\<lambda>s. None)"
  by (simp add: offlineEnv_def)

lemma fault_onlineEnv: "fault onlineEnv = (\<lambda>s. None)"
  by (simp add: onlineEnv_def offlineEnv_def)

lemma job_storeWith: "scrapingJobs (storeWith jobId j) jobId = Some j"
  by (simp add: storeWith_def)

text \<open>
  Claim C1.  A job whose every URL fails should still end with the status
  \<open>completed\<close> and \<open>successCount = 0\<close>.  Evaluated on a job of two URLs, with a
  working store and every request and page load failing: no entry of the result list
  is a success, and the job ends with the status \<open>failed\<close>, the error
  \<open>browser is not defined\<close> and no \<open>successCount\<close>, because the line
  \<open>await browser.close()\<close> behind the loop reads a name that is bound nowhere.
\<close>

theorem runScrapingJob_all_urls_fail:
  "length (filter success (scrapeAll offlineEnv (constructor defaultOptions) [] twoUrls [])) = 0
   \<and> map_option (\<lambda>j. (status j, jobError j, successCount j))
        (scrapingJobs (fst (runScrapingJob offlineEnv (constructor defaultOptions) ''job1''
           (storeWith ''job1'' (queuedJob twoUrls [])))) ''job1'')
       = Some (''failed'', Some ''browser is not defined'', None)"
  unfolding runScrapingJob_fails [OF fault_offlineEnv job_storeWith]
  by (simp add: scrapeAll_offline queuedJob_def)

text \<open>
  Claim C2.  The finalized result list should have one entry per URL, in input order,
  and the job should record \<open>resultCount = N\<close>.  Evaluated on a job of two URLs that
  both scrape successfully: the list built by the loop has the two results in order,
  but the job ends \<open>failed\<close> with no \<open>resultCount\<close> and no \<open>scrapedDataId\<close>, and
  no document of results is written, for the same reason as in C1.
\<close>

theorem runScrapingJob_results_not_recorded:
  "map url (scrapeAll onlineEnv (constructor defaultOptions) [''GPT-4''] twoUrls []) = twoUrls
   \<and> map success (scrapeAll onlineEnv (constructor defaultOptions) [''GPT-4''] twoUrls []) = [True, True]
   \<and> map_option (\<lambda>j. (status j, resultCount j, scrapedDataId j))
        (scrapingJobs (fst (runScrapingJob onlineEnv (constructor defaultOptions) ''job1''
           (storeWith ''job1'' (queuedJob twoUrls [''GPT-4''])))) ''job1'')
       = Some (''failed'', None, None)
   \<and> scrapedData (fst (runScrapingJob onlineEnv (constructor defaultOptions) ''job1''
           (storeWith ''job1'' (queuedJob twoUrls [''GPT-4''])))) ''scrape_result_job1'' = None"
proof -
  have "map success (scrapeAll onlineEnv (constructor defaultOptions) [''GPT-4''] twoUrls [])
          = [True, True]"
    by code_simp
  then show ?thesis
    unfolding runScrapingJob_fails [OF fault_onlineEnv job_storeWith]
    by (simp add: scrapeAll_urls queuedJob_def storeWith_def)
qed

section \<open>Properties of the fetch-strategy selection\<close>












section \<open>Properties of the retry loops\<close>

text \<open>One round of the agent's loop: a response ends it, a failure with budget left
  goes on with the next attempt, a failure on the last attempt is thrown.\<close>

lemma fetch_success_now:
  "int retries < maxRetries this \<Longrightarrow> axios_get w u retries = Inr r \<Longrightarrow>
   fetchWithRetries w this u retries = Inr (Some r)"
  by (subst fetchWithRetries.simps) simp

lemma fetch_retry:
  "int (Suc retries) < maxRetries this \<Longrightarrow> axios_get w u retries = Inl e \<Longrightarrow>
   fetchWithRetries w this u retries = fetchWithRetries w this u (Suc retries)"
  by (subst fetchWithRetries.simps) simp

lemma fetch_last_failure:
  "int retries < maxRetries this \<Longrightarrow> int (Suc retries) \<ge> maxRetries this \<Longrightarrow>
   axios_get w u retries = Inl e \<Longrightarrow> fetchWithRetries w this u retries = Inl e"
  by (subst fetchWithRetries.simps) simp

lemma fetch_all_fail_from:
  assumes "\<forall>i. int i < maxRetries this \<longrightarrow> axios_get w u i = Inl (errs i)"
  shows "int retries < maxRetries this \<Longrightarrow>
         fetchWithRetries w this u retries = Inl (errs (nat (maxRetries this) - 1))"
proof (induction "nat (maxRetries this) - Suc retries" arbitrary: retries)
  case 0
  then have last: "int (Suc retries) \<ge> maxRetries this" by linarith
  with 0 have "retries = nat (maxRetries this) - 1" by linarith
  moreover have "axios_get w u retries = Inl (errs retries)"
    using assms 0 by simp
  ultimately show ?case
    using fetch_last_failure [OF "0.prems" last] by simp
next
  case (Suc k)
  then have more: "int (Suc retries) < maxRetries this" by linarith
  have "axios_get w u retries = Inl (errs retries)"
    using assms Suc.prems by simp
  then have "fetchWithRetries w this u retries = fetchWithRetries w this u (Suc retries)"
    using more by (rule fetch_retry [rotated])
  also have "\<dots> = Inl (errs (nat (maxRetries this) - 1))"
    using Suc.hyps more by (intro Suc.hyps(1)) linarith+
  finally show ?case .
qed

lemma fetch_no_budget: "maxRetries this \<le> 0 \<Longrightarrow> fetchWithRetries w this u 0 = Inr None"
  by (subst fetchWithRetries.simps) simp

lemma fetch_third:
  assumes "3 \<le> maxRetries this" "axios_get w u 0 = Inl ea" "axios_get w u 1 = Inl eb"
    "axios_get w u 2 = Inr r"
  shows "fetchWithRetries w this u 0 = Inr (Some r)"
proof -
  have "fetchWithRetries w this u 0 = fetchWithRetries w this u (Suc 0)"
    using assms by (intro fetch_retry) auto
  also have "\<dots> = fetchWithRetries w this u (Suc (Suc 0))"
    using assms by (intro fetch_retry) auto
  also have "\<dots> = Inr (Some r)"
    using assms by (intro fetch_success_now) (auto simp: numeral_2_eq_2)
  finally show ?thesis .
qed

text \<open>The rest of \<open>scrapeWithoutBrowser\<close> reads the network only through the retry
  loop, so two environments that differ in the network alone give the same page result
  once the loop returns the same.\<close>

lemma keywordCount_axios [simp]: "keywordCount (w\<lparr>axios_get := g\<rparr>) t k = keywordCount w t k"
  by (simp add: keywordCount_def)

lemma scoreKeywords_axios [simp]:
  "scoreKeywords (w\<lparr>axios_get := g\<rparr>) t ks acc = scoreKeywords w t ks acc"
  by (induction ks arbitrary: acc) (auto split: sum.splits)

lemma extractMainContent_axios [simp]:
  "extractMainContent (w\<lparr>axios_get := g\<rparr>) this t ks = extractMainContent w this t ks"
  by (simp add: extractMainContent_def Let_def)

lemma scrapeWithoutBrowser_try_axios:
  assumes "fetchWithRetries (w\<lparr>axios_get := g\<rparr>) this u 0 = fetchWithRetries w this u 0"
  shows "scrapeWithoutBrowser_try (w\<lparr>axios_get := g\<rparr>) this u kws = scrapeWithoutBrowser_try w this u kws"
  unfolding scrapeWithoutBrowser_try_def assms Let_def
  by (simp split: sum.splits option.splits)

lemma scrapeWithoutBrowser_axios:
  assumes "fetchWithRetries (w\<lparr>axios_get := g\<rparr>) this u 0 = fetchWithRetries w this u 0"
  shows "scrapeWithoutBrowser (w\<lparr>axios_get := g\<rparr>) this u kws = scrapeWithoutBrowser w this u kws"
  unfolding scrapeWithoutBrowser_def scrapeWithoutBrowser_try_axios [OF assms]
  by (simp add: failedResult_def split: sum.splits)

lemma scrapeWithoutBrowser_exhausted:
  assumes "fetchWithRetries w this u 0 = Inl e"
  shows "scrapeWithoutBrowser w this u kws =
           (emptyResult u False)\<lparr> error := Some (message e), timestamp := Some (toISOString w u),
              method' := Some ''lightweight'' \<rparr>"
  by (simp add: scrapeWithoutBrowser_def scrapeWithoutBrowser_try_def assms failedResult_def)

text \<open>The same steps for the loop of \<open>web-scraper.js\<close>.\<close>

lemma loop_success_now:
  "int retries < m \<Longrightarrow> attemptOf w u retries = Inr c \<Longrightarrow> scrapeUrlLoop w m u retries = Inr (Some c)"
  by (subst scrapeUrlLoop.simps) simp

lemma loop_retry:
  "int (Suc retries) < m \<Longrightarrow> attemptOf w u retries = Inl e \<Longrightarrow>
   scrapeUrlLoop w m u retries = scrapeUrlLoop w m u (Suc retries)"
  by (subst scrapeUrlLoop.simps) simp

lemma loop_last_failure:
  "int retries < m \<Longrightarrow> int (Suc retries) \<ge> m \<Longrightarrow> attemptOf w u retries = Inl e \<Longrightarrow>
   scrapeUrlLoop w m u retries =
     Inl (Error (''Failed to scrape URL after '' @ showInt m @ '' attempts: '' @ message e))"
  by (subst scrapeUrlLoop.simps) simp

lemma loop_all_fail_from:
  assumes "\<forall>i. int i < m \<longrightarrow> attemptOf w u i = Inl (errs i)"
  shows "int retries < m \<Longrightarrow>
         scrapeUrlLoop w m u retries =
           Inl (Error (''Failed to scrape URL after '' @ showInt m @ '' attempts: ''
                         @ message (errs (nat m - 1))))"
proof (induction "nat m - Suc retries" arbitrary: retries)
  case 0
  then have last: "int (Suc retries) \<ge> m" by linarith
  with 0 have "retries = nat m - 1" by linarith
  moreover have "attemptOf w u retries = Inl (errs retries)"
    using assms 0 by simp
  ultimately show ?case
    using loop_last_failure [OF "0.prems" last] by simp
next
  case (Suc k)
  then have more: "int (Suc retries) < m" by linarith
  have "attemptOf w u retries = Inl (errs retries)"
    using assms Suc.prems by simp
  then have "scrapeUrlLoop w m u retries = scrapeUrlLoop w m u (Suc retries)"
    using more by (rule loop_retry [rotated])
  also have "\<dots> = Inl (Error (''Failed to scrape URL after '' @ showInt m @ '' attempts: ''
                         @ message (errs (nat m - 1))))"
    using Suc.hyps more by (intro Suc.hyps(1)) linarith+
  finally show ?case .
qed

lemma loop_third:
  assumes "3 \<le> m" "attemptOf w u 0 = Inl ea" "attemptOf w u 1 = Inl eb" "attemptOf w u 2 = Inr c"
  shows "scrapeUrlLoop w m u 0 = Inr (Some c)"
proof -
  have "scrapeUrlLoop w m u 0 = scrapeUrlLoop w m u (Suc 0)"
    using assms by (intro loop_retry) auto
  also have "\<dots> = scrapeUrlLoop w m u (Suc (Suc 0))"
    using assms by (intro loop_retry) auto
  also have "\<dots> = Inr (Some c)"
    using assms by (intro loop_success_now) (auto simp: numeral_2_eq_2)
  finally show ?thesis .
qed

text \<open>
  Claim C9.  In both files: a fetch whose first two attempts fail and whose third
  succeeds, with a budget of at least three, returns the response of the third attempt,
  which is what the loop returns when the first attempt brings that response at once,
  and the page result built from it is the same; a fetch whose every attempt up to the
  budget fails throws.  In the agent the thrown error is the error of the last attempt
  itself; in \<open>web-scraper.js\<close> it is a new error whose message quotes the message of
  the last attempt.
\<close>

theorem lightweight_fetch_retry:
  "(3 \<le> maxRetries this \<and> axios_get w u 0 = Inl ea \<and> axios_get w u 1 = Inl eb
      \<and> axios_get w u 2 = Inr r \<and> g u 0 = Inr r \<longrightarrow>
      fetchWithRetries w this u 0 = Inr (Some r)
      \<and> fetchWithRetries (w\<lparr>axios_get := g\<rparr>) this u 0 = Inr (Some r)
      \<and> scrapeWithoutBrowser w this u kws = scrapeWithoutBrowser (w\<lparr>axios_get := g\<rparr>) this u kws)
   \<and> (1 \<le> maxRetries this \<and> (\<forall>i. int i < maxRetries this \<longrightarrow> axios_get w u i = Inl (errs i)) \<longrightarrow>
      fetchWithRetries w this u 0 = Inl (errs (nat (maxRetries this) - 1)))
   \<and> (3 \<le> orDefault m 3 \<and> attemptOf w u 0 = Inl ea \<and> attemptOf w u 1 = Inl eb
      \<and> attemptOf w u 2 = Inr c \<and> attemptOf w' u 0 = Inr c \<longrightarrow>
      ws_scrapeUrl w u m = Inr (Some c) \<and> ws_scrapeUrl w' u m = Inr (Some c))
   \<and> (1 \<le> orDefault m 3 \<and> (\<forall>i. int i < orDefault m 3 \<longrightarrow> attemptOf w u i = Inl (errs i)) \<longrightarrow>
      ws_scrapeUrl w u m =
        Inl (Error (''Failed to scrape URL after '' @ showInt (orDefault m 3) @ '' attempts: ''
                      @ message (errs (nat (orDefault m 3) - 1)))))"
proof (intro conjI impI)
  assume a: "3 \<le> maxRetries this \<and> axios_get w u 0 = Inl ea \<and> axios_get w u 1 = Inl eb
      \<and> axios_get w u 2 = Inr r \<and> g u 0 = Inr r"
  then show slow: "fetchWithRetries w this u 0 = Inr (Some r)"
    by (intro fetch_third) auto
  from a show fast: "fetchWithRetries (w\<lparr>axios_get := g\<rparr>) this u 0 = Inr (Some r)"
    by (intro fetch_success_now) auto
  from slow fast show "scrapeWithoutBrowser w this u kws = scrapeWithoutBrowser (w\<lparr>axios_get := g\<rparr>) this u kws"
    by (intro scrapeWithoutBrowser_axios [symmetric]) simp
next
  assume "1 \<le> maxRetries this \<and> (\<forall>i. int i < maxRetries this \<longrightarrow> axios_get w u i = Inl (errs i))"
  then show "fetchWithRetries w this u 0 = Inl (errs (nat (maxRetries this) - 1))"
    by (intro fetch_all_fail_from) auto
next
  assume a: "3 \<le> orDefault m 3 \<and> attemptOf w u 0 = Inl ea \<and> attemptOf w u 1 = Inl eb
      \<and> attemptOf w u 2 = Inr c \<and> attemptOf w' u 0 = Inr c"
  then show "ws_scrapeUrl w u m = Inr (Some c)"
    unfolding ws_scrapeUrl_def by (intro loop_third) auto
  from a show "ws_scrapeUrl w' u m = Inr (Some c)"
    unfolding ws_scrapeUrl_def by (intro loop_success_now) auto
next
  assume "1 \<le> orDefault m 3 \<and> (\<forall>i. int i < orDefault m 3 \<longrightarrow> attemptOf w u i = Inl (errs i))"
  then show "ws_scrapeUrl w u m =
        Inl (Error (''Failed to scrape URL after '' @ showInt (orDefault m 3) @ '' attempts: ''
                      @ message (errs (nat (orDefault m 3) - 1))))"
    unfolding ws_scrapeUrl_def by (intro loop_all_fail_from) auto
qed

theorem lightweight_fetch_retry_witness:
  "fetchWithRetries flakyEnv (constructor defaultOptions) ''https://en.wikipedia.org/wiki/Web_scraping'' 0
     = Inr (Some sampleResponse)
   \<and> scrapeWithoutBrowser flakyEnv (constructor defaultOptions)
         ''https://en.wikipedia.org/wiki/Web_scraping'' [''GPT-4'']
       = scrapeWithoutBrowser (flakyEnv\<lparr>axios_get := (\<lambda>u i. Inr sampleResponse)\<rparr>)
           (constructor defaultOptions) ''https://en.wikipedia.org/wiki/Web_scraping'' [''GPT-4'']
   \<and> fetchWithRetries offlineEnv (constructor defaultOptions) ''https://en.wikipedia.org/wiki/Web_scraping'' 0
       = Inl (Error ''connect ECONNREFUSED'')
   \<and> ws_scrapeUrl flakyEnv ''https://en.wikipedia.org/wiki/Web_scraping'' None
       = Inr (Some \<lparr> sc_html = ''<html>'', sc_url = ''https://en.wikipedia.org/wiki/Web_scraping'',
                      sc_status = 200 \<rparr>)
   \<and> ws_scrapeUrl offlineEnv ''https://en.wikipedia.org/wiki/Web_scraping'' None
       = Inl (Error ''Failed to scrape URL after 3 attempts: connect ECONNREFUSED'')"
proof -
  have m: "maxRetries (constructor defaultOptions) = 3" "orDefault None 3 = 3"
    by (simp_all add: constructor_def defaultOptions_def orDefault_def)
  have s: "showInt 3 = ''3''"
    by code_simp
  have flaky: "axios_get flakyEnv u 0 = Inl (Error ''timeout of 15000ms exceeded'')"
    "axios_get flakyEnv u (Suc 0) = Inl (Error ''timeout of 15000ms exceeded'')"
    "axios_get flakyEnv u 2 = Inr sampleResponse" for u
    by (simp_all add: flakyEnv_def)
  have off: "axios_get offlineEnv u i = Inl (Error ''connect ECONNREFUSED'')" for u i
    by (simp add: offlineEnv_def)
  have at: "attemptOf flakyEnv u 0 = Inl (Error ''timeout of 15000ms exceeded'')"
    "attemptOf flakyEnv u (Suc 0) = Inl (Error ''timeout of 15000ms exceeded'')"
    "attemptOf flakyEnv u 2 = Inr \<lparr> sc_html = ''<html>'', sc_url = u, sc_status = 200 \<rparr>"
    "attemptOf offlineEnv u i = Inl (Error ''connect ECONNREFUSED'')"
    "attemptOf onlineEnv u 0 = Inr \<lparr> sc_html = ''<html>'', sc_url = u, sc_status = 200 \<rparr>" for u i
    by (simp_all add: attemptOf_def flakyEnv_def onlineEnv_def off sampleResponse_def)
  show ?thesis
    using lightweight_fetch_retry [where this = "constructor defaultOptions" and w = flakyEnv
        and u = "''https://en.wikipedia.org/wiki/Web_scraping''" and r = sampleResponse
        and g = "\<lambda>u i. Inr sampleResponse" and kws = "[''GPT-4'']" and m = None
        and ea = "Error ''timeout of 15000ms exceeded''" and eb = "Error ''timeout of 15000ms exceeded''"
        and c = "\<lparr> sc_html = ''<html>'', sc_url = ''https://en.wikipedia.org/wiki/Web_scraping'',
                   sc_status = 200 \<rparr>" and w' = onlineEnv and errs = "\<lambda>i. Error ''x''"]
      lightweight_fetch_retry [where this = "constructor defaultOptions" and w = offlineEnv
        and u = "''https://en.wikipedia.org/wiki/Web_scraping''" and m = None
        and errs = "\<lambda>i. Error ''connect ECONNREFUSED''"]
    by (simp add: m s flaky off at)
qed

section \<open>The shape of a page result\<close>

lemma slice0_take: "0 \<le> n \<Longrightarrow> slice0 xs n = take (nat n) xs"
  by (simp add: slice0_def)

lemma scrapeWithoutBrowser_try_shape:
  assumes "scrapeWithoutBrowser_try w this u kws = Inr r"
  shows "successShape r \<and> method' r = Some ''lightweight'' \<and> screenshotUrl r = None
    \<and> (\<exists>response. fetchWithRetries w this u 0 = Inr (Some response)
         \<and> headings r = Some (extractHeadings (remove noise (cheerio_load w (resp_data response)))
               (mainElementOf (remove noise (cheerio_load w (resp_data response)))))
         \<and> links r = Some (take 20 (extractLinks (remove noise (cheerio_load w (resp_data response)))
               (mainElementOf (remove noise (cheerio_load w (resp_data response)))))))"
  using assms unfolding scrapeWithoutBrowser_try_def Let_def
  by (auto simp: emptyResult_def successShape_def slice0_take split: sum.splits option.splits)

lemma failedResult_shape: "failureShape (failedResult w u e)" "failureShape ((failedResult w u e)\<lparr> method' := m \<rparr>)"
  by (simp_all add: failedResult_def emptyResult_def failureShape_def)

lemma shape_exclusive: "successShape r \<Longrightarrow> \<not> failureShape r"
  "failureShape r \<Longrightarrow> \<not> successShape r"
  by (simp_all add: successShape_def failureShape_def)

lemma failedResult_not_success: "\<not> successShape (failedResult w u e)"
  "\<not> successShape ((failedResult w u e)\<lparr> method' := m \<rparr>)"
  by (simp_all add: failedResult_def emptyResult_def successShape_def)

lemma scrapeWithoutBrowser_shape:
  "successShape (scrapeWithoutBrowser w this u kws) \<noteq> failureShape (scrapeWithoutBrowser w this u kws)"
  unfolding scrapeWithoutBrowser_def
  by (auto simp: failedResult_shape failedResult_not_success shape_exclusive dest: scrapeWithoutBrowser_try_shape split: sum.splits)

lemma scrapeWithoutBrowser_success:
  assumes "success (scrapeWithoutBrowser w this u kws)"
  shows "scrapeWithoutBrowser_try w this u kws = Inr (scrapeWithoutBrowser w this u kws)"
  using assms unfolding scrapeWithoutBrowser_def
  by (auto simp: failedResult_def emptyResult_def split: sum.splits)

lemma scrapePage_try_shape:
  assumes "scrapePage_try w this u kws = Inr r"
  shows "successShape r \<and> screenshotUrl r \<noteq> None \<and> headings r = None \<and> links r = None
    \<and> method' r = None"
  using assms unfolding scrapePage_try_def
  by (auto simp: emptyResult_def successShape_def split: sum.splits)

lemma scrapePage_cases:
  assumes "scrapePage w this u kws = Inr r"
  shows "scrapePage_try w this u kws = Inr r \<or> (\<exists>e. r = failedResult w u e)"
  using assms unfolding scrapePage_def Let_def
  by (auto split: sum.splits option.splits)

lemma scrapePage_shape:
  assumes "scrapePage w this u kws = Inr r"
  shows "successShape r \<noteq> failureShape r"
  using scrapePage_cases [OF assms]
  by (auto simp: failedResult_shape failedResult_not_success shape_exclusive dest: scrapePage_try_shape)

lemma scrapeOne_shape: "successShape (scrapeOne w this kws u) \<noteq> failureShape (scrapeOne w this kws u)"
proof (cases "scrapeUrl w this u kws False")
  case (Inl e)
  then show ?thesis
    by (simp add: scrapeOne_def emptyResult_def successShape_def failureShape_def)
next
  case (Inr r)
  then have "r = scrapeWithoutBrowser w this u kws \<or> scrapePage w this u kws = Inr r"
    unfolding scrapeUrl_def by (auto split: strategy.splits option.splits sum.splits)
  then have "successShape r \<noteq> failureShape r"
    using scrapeWithoutBrowser_shape scrapePage_shape by blast
  with Inr show ?thesis
    by (simp add: scrapeOne_def)
qed

text \<open>The result for a URL depends on the environment only through what the
  collaborators answer for that URL.\<close>

lemma fetch_sameFor:
  "axios_get w u = axios_get w' u \<Longrightarrow>
   fetchWithRetries w this u retries = fetchWithRetries w' this u retries"
proof (induction w this u retries rule: fetchWithRetries.induct)
  case (1 w this u retries)
  show ?case
  proof (cases "int retries < maxRetries this")
    case False
    then show ?thesis
      by (simp add: fetchWithRetries.simps [of w this u retries]
              fetchWithRetries.simps [of w' this u retries])
  next
    case budget: True
    show ?thesis
    proof (cases "axios_get w u retries")
      case (Inr r)
      with budget 1(2) show ?thesis
        by (simp add: fetchWithRetries.simps [of w this u retries]
              fetchWithRetries.simps [of w' this u retries])
    next
      case (Inl e)
      show ?thesis
      proof (cases "int (Suc retries) \<ge> maxRetries this")
        case True
        with budget Inl 1(2) show ?thesis
          by (simp add: fetchWithRetries.simps [of w this u retries]
              fetchWithRetries.simps [of w' this u retries])
      next
        case False
        then have "fetchWithRetries w this u (Suc retries) = fetchWithRetries w' this u (Suc retries)"
          using 1 budget Inl by simp
        with budget Inl False 1(2) show ?thesis
          by (simp add: fetchWithRetries.simps [of w this u retries]
              fetchWithRetries.simps [of w' this u retries])
      qed
    qed
  qed
qed

lemma keywordCount_sameFor:
  "regexp_engine w = regexp_engine w' \<Longrightarrow> keywordCount w t k = keywordCount w' t k"
  by (simp add: keywordCount_def)

lemma scoreKeywords_sameFor:
  "regexp_engine w = regexp_engine w' \<Longrightarrow> scoreKeywords w t ks acc = scoreKeywords w' t ks acc"
  by (induction ks arbitrary: acc) (auto simp: keywordCount_sameFor [of w w'] split: sum.splits)

lemma extractMainContent_sameFor:
  "sameFor w w' u \<Longrightarrow> extractMainContent w this t ks = extractMainContent w' this t ks"
  by (simp add: extractMainContent_def sameFor_def Let_def)

lemma scrapeWithoutBrowser_sameFor:
  assumes "sameFor w w' u"
  shows "scrapeWithoutBrowser w this u kws = scrapeWithoutBrowser w' this u kws"
proof -
  have f: "fetchWithRetries w this u 0 = fetchWithRetries w' this u 0"
    using assms by (intro fetch_sameFor) (simp add: sameFor_def)
  have s: "scoreKeywords w t kws [] = scoreKeywords w' t kws []" for t
    using assms by (intro scoreKeywords_sameFor) (simp add: sameFor_def)
  have c: "cheerio_load w = cheerio_load w'" "toISOString w u = toISOString w' u"
    using assms by (simp_all add: sameFor_def)
  have t: "scrapeWithoutBrowser_try w this u kws = scrapeWithoutBrowser_try w' this u kws"
    unfolding scrapeWithoutBrowser_try_def f s c extractMainContent_sameFor [OF assms] ..
  have r: "failedResult w u e = failedResult w' u e" for e
    by (simp add: failedResult_def c)
  show ?thesis
    unfolding scrapeWithoutBrowser_def t r ..
qed

lemma scrapePage_sameFor:
  assumes "sameFor w w' u"
  shows "scrapePage w this u kws = scrapePage w' this u kws"
proof -
  have s: "scoreKeywords w t kws [] = scoreKeywords w' t kws []" for t
    using assms by (intro scoreKeywords_sameFor) (simp add: sameFor_def)
  have c: "page_render w u = page_render w' u" "toISOString w u = toISOString w' u"
    "storage_uploadFile w u = storage_uploadFile w' u" "browser_newPage w u = browser_newPage w' u"
    "page_close w u = page_close w' u"
    using assms by (simp_all add: sameFor_def)
  have t: "scrapePage_try w this u kws = scrapePage_try w' this u kws"
    unfolding scrapePage_try_def s c extractMainContent_sameFor [OF assms] ..
  have r: "failedResult w u e = failedResult w' u e" for e
    by (simp add: failedResult_def c)
  show ?thesis
    unfolding scrapePage_def t r c ..
qed

lemma scrapeOne_sameFor:
  assumes "sameFor w w' u"
  shows "scrapeOne w this kws u = scrapeOne w' this kws u"
proof -
  have c: "puppeteer_launch w u = puppeteer_launch w' u" "browser_close w u = browser_close w' u"
    using assms by (simp_all add: sameFor_def)
  have "scrapeUrl w this u kws False = scrapeUrl w' this u kws False"
    unfolding scrapeUrl_def c scrapePage_sameFor [OF assms] scrapeWithoutBrowser_sameFor [OF assms] ..
  then show ?thesis
    by (simp add: scrapeOne_def)
qed

lemma scrapeAll_nth:
  "i < length us \<Longrightarrow> scrapeAll w this kws us [] ! i = scrapeOne w this kws (us ! i)"
  by (simp add: scrapeAll_map)

text \<open>
  Claim C6.  Every page result is of exactly one of the two shapes: a success with
  title, description, main content, match counts and text length present and no error,
  or a failure with an error message and none of the content fields.  This holds for
  what \<open>scrapeWithoutBrowser\<close> returns, for what \<open>scrapePage\<close> returns, and for every
  entry of the list a job builds.  The entry for a URL is the same in any two
  environments that answer the same for that URL, whatever happens to the other URLs of
  the job.  (A field counts as populated when the object has it; its text may be
  empty.)
\<close>

theorem pageResult_invariant:
  "successShape (scrapeWithoutBrowser w this u kws) \<noteq> failureShape (scrapeWithoutBrowser w this u kws)
   \<and> (scrapePage w this u kws = Inr r \<longrightarrow> successShape r \<noteq> failureShape r)
   \<and> (\<forall>r \<in> set (scrapeAll w this kws us []). successShape r \<noteq> failureShape r)
   \<and> (\<forall>i < length us. sameFor w w' (us ! i) \<longrightarrow>
         scrapeAll w this kws us [] ! i = scrapeAll w' this kws us [] ! i)"
proof (intro conjI impI ballI allI)
  show "successShape (scrapeWithoutBrowser w this u kws) \<noteq> failureShape (scrapeWithoutBrowser w this u kws)"
    by (rule scrapeWithoutBrowser_shape)
next
  assume "scrapePage w this u kws = Inr r"
  then show "successShape r \<noteq> failureShape r"
    by (rule scrapePage_shape)
next
  fix r
  assume "r \<in> set (scrapeAll w this kws us [])"
  then obtain v where "r = scrapeOne w this kws v"
    by (auto simp: scrapeAll_map)
  then show "successShape r \<noteq> failureShape r"
    using scrapeOne_shape by simp
next
  fix i
  assume "i < length us" and "sameFor w w' (us ! i)"
  then show "scrapeAll w this kws us [] ! i = scrapeAll w' this kws us [] ! i"
    by (simp add: scrapeAll_nth scrapeOne_sameFor)
qed


theorem pageResult_invariant_witness:
  "sameFor onlineEnv brokenEnv (twoUrls ! 0)
   \<and> scrapeAll onlineEnv (constructor defaultOptions) [''GPT-4''] twoUrls [] ! 0
       = scrapeAll brokenEnv (constructor defaultOptions) [''GPT-4''] twoUrls [] ! 0
   \<and> successShape (scrapeAll brokenEnv (constructor defaultOptions) [''GPT-4''] twoUrls [] ! 0)
   \<and> failureShape (scrapeAll brokenEnv (constructor defaultOptions) [''GPT-4''] twoUrls [] ! 1)
   \<and> successShape (scrapeAll onlineEnv (constructor defaultOptions) [''GPT-4''] twoUrls [] ! 1)"
proof -
  have same: "sameFor onlineEnv brokenEnv (twoUrls ! 0)"
    by (simp add: sameFor_def brokenEnv_def twoUrls_def)
  have "successShape (scrapeAll brokenEnv (constructor defaultOptions) [''GPT-4''] twoUrls [] ! 0)"
    "failureShape (scrapeAll brokenEnv (constructor defaultOptions) [''GPT-4''] twoUrls [] ! 1)"
    "successShape (scrapeAll onlineEnv (constructor defaultOptions) [''GPT-4''] twoUrls [] ! 1)"
    by code_simp+
  moreover have "length twoUrls = 2"
    by (simp add: twoUrls_def)
  ultimately show ?thesis
    using same pageResult_invariant [of onlineEnv "constructor defaultOptions"
        "''https://example.com/news''" "[''GPT-4'']" r twoUrls brokenEnv]
    by auto
qed


text \<open>
  Claim C10.  A successful result of the rendered scrape has a screenshot reference and
  no headings, no links and no method; a successful result of the lightweight scrape
  has the headings of the main element, the first 20 of its links, the method
  \<open>lightweight\<close> and no screenshot reference.
\<close>

theorem pageResult_shape_by_method:
  "(scrapePage w this u kws = Inr r \<and> success r \<longrightarrow>
      screenshotUrl r \<noteq> None \<and> headings r = None \<and> links r = None \<and> method' r = None)
   \<and> (success (scrapeWithoutBrowser w this u kws) \<longrightarrow>
      method' (scrapeWithoutBrowser w this u kws) = Some ''lightweight''
      \<and> screenshotUrl (scrapeWithoutBrowser w this u kws) = None
      \<and> (\<exists>response. fetchWithRetries w this u 0 = Inr (Some response)
         \<and> headings (scrapeWithoutBrowser w this u kws) =
             Some (extractHeadings (remove noise (cheerio_load w (resp_data response)))
               (mainElementOf (remove noise (cheerio_load w (resp_data response)))))
         \<and> links (scrapeWithoutBrowser w this u kws) =
             Some (take 20 (extractLinks (remove noise (cheerio_load w (resp_data response)))
               (mainElementOf (remove noise (cheerio_load w (resp_data response))))))))"
proof (intro conjI impI)
  assume a: "scrapePage w this u kws = Inr r \<and> success r"
  then have "scrapePage_try w this u kws = Inr r"
    using scrapePage_cases [of w this u kws r] by (auto simp: failedResult_def emptyResult_def)
  from scrapePage_try_shape [OF this]
  show "screenshotUrl r \<noteq> None" "headings r = None" "links r = None" "method' r = None"
    by simp_all
next
  assume "success (scrapeWithoutBrowser w this u kws)"
  then have t: "scrapeWithoutBrowser_try w this u kws = Inr (scrapeWithoutBrowser w this u kws)"
    by (rule scrapeWithoutBrowser_success)
  from scrapeWithoutBrowser_try_shape [OF t]
  show "method' (scrapeWithoutBrowser w this u kws) = Some ''lightweight''"
    "screenshotUrl (scrapeWithoutBrowser w this u kws) = None"
    "\<exists>response. fetchWithRetries w this u 0 = Inr (Some response)
         \<and> headings (scrapeWithoutBrowser w this u kws) =
             Some (extractHeadings (remove noise (cheerio_load w (resp_data response)))
               (mainElementOf (remove noise (cheerio_load w (resp_data response)))))
         \<and> links (scrapeWithoutBrowser w this u kws) =
             Some (take 20 (extractLinks (remove noise (cheerio_load w (resp_data response)))
               (mainElementOf (remove noise (cheerio_load w (resp_data response))))))"
    by simp_all
qed

theorem pageResult_shape_by_method_witness:
  "success (scrapeWithoutBrowser linksEnv (constructor defaultOptions)
      ''https://en.wikipedia.org/wiki/Web_scraping'' [])
   \<and> links (scrapeWithoutBrowser linksEnv (constructor defaultOptions)
      ''https://en.wikipedia.org/wiki/Web_scraping'' [])
       = Some (replicate 20 (''https://example.org/x'', ''x''))
   \<and> headings (scrapeWithoutBrowser linksEnv (constructor defaultOptions)
      ''https://en.wikipedia.org/wiki/Web_scraping'' []) = Some []
   \<and> method' (scrapeWithoutBrowser linksEnv (constructor defaultOptions)
      ''https://en.wikipedia.org/wiki/Web_scraping'' []) = Some ''lightweight''
   \<and> screenshotUrl (scrapeWithoutBrowser linksEnv (constructor defaultOptions)
      ''https://en.wikipedia.org/wiki/Web_scraping'' []) = None
   \<and> (\<exists>r. scrapePage onlineEnv (constructor defaultOptions) ''https://example.com/news'' [] = Inr r
        \<and> success r \<and> screenshotUrl r = Some ''https://storage.example/shot.png''
        \<and> headings r = None \<and> links r = None \<and> method' r = None)"
proof -
  have l: "success (scrapeWithoutBrowser linksEnv (constructor defaultOptions)
      ''https://en.wikipedia.org/wiki/Web_scraping'' [])"
    "links (scrapeWithoutBrowser linksEnv (constructor defaultOptions)
      ''https://en.wikipedia.org/wiki/Web_scraping'' [])
       = Some (replicate 20 (''https://example.org/x'', ''x''))"
    "headings (scrapeWithoutBrowser linksEnv (constructor defaultOptions)
      ''https://en.wikipedia.org/wiki/Web_scraping'' []) = Some []"
    by code_simp+
  obtain r where r: "scrapePage onlineEnv (constructor defaultOptions) ''https://example.com/news'' [] = Inr r"
    "success r" "screenshotUrl r = Some ''https://storage.example/shot.png''"
    by (simp add: scrapePage_def scrapePage_try_def onlineEnv_def offlineEnv_def emptyResult_def
        extractMainContent_def)
  from l r pageResult_shape_by_method [of linksEnv "constructor defaultOptions"
      "''https://en.wikipedia.org/wiki/Web_scraping''" "[]"]
    pageResult_shape_by_method [of onlineEnv "constructor defaultOptions"
      "''https://example.com/news''" "[]" r]
  show ?thesis
    by auto
qed

section \<open>When the summarization back end is unavailable\<close>

lemma extractMainContent_down:
  assumes "spec_backendDown w e"
  shows "extractMainContent w this t kws = Inl e"
proof -
  from assms obtain e' where "openai_chat w (join '', '' kws) (truncateText this t) = Inl e'"
    unfolding spec_backendDown_def by blast
  moreover from assms have "generateText w (join '', '' kws) (truncateText this t) = Inl e"
    unfolding spec_backendDown_def by blast
  ultimately show ?thesis
    by (simp add: extractMainContent_def Let_def)
qed

lemma scrapeWithoutBrowser_try_down:
  assumes "spec_backendDown w e" and "enableAIExtraction this"
  shows "\<exists>e'. scrapeWithoutBrowser_try w this u kws = Inl e'"
  unfolding scrapeWithoutBrowser_try_def Let_def
  by (simp add: extractMainContent_down [OF assms(1)] assms(2) split: sum.splits option.splits)

lemma scrapeWithoutBrowser_down:
  assumes "spec_backendDown w e" and "enableAIExtraction this"
  shows "failureShape (scrapeWithoutBrowser w this u kws)"
  using scrapeWithoutBrowser_try_down [OF assms, of u kws]
  by (auto simp: scrapeWithoutBrowser_def failedResult_shape)

lemma scrapeWithoutBrowser_down_error:
  assumes "spec_backendDown w e" and "enableAIExtraction this"
    and "fetchWithRetries w this u 0 = Inr (Some response)"
    and "scoreKeywords w (collapseSpaces (trim (selText (mainElementOf (remove noise
           (cheerio_load w (resp_data response))))))) kws [] = Inr km"
  shows "scrapeWithoutBrowser w this u kws =
           (failedResult w u e)\<lparr> method' := Some ''lightweight'' \<rparr>"
  unfolding scrapeWithoutBrowser_def scrapeWithoutBrowser_try_def Let_def
  by (simp add: assms extractMainContent_down [OF assms(1)])

lemma scrapePage_try_down:
  assumes "spec_backendDown w e"
  shows "\<exists>e'. scrapePage_try w this u kws = Inl e'"
  unfolding scrapePage_try_def
  by (simp add: extractMainContent_down [OF assms] split: sum.splits)

lemma scrapePage_down:
  assumes "spec_backendDown w e" and "scrapePage w this u kws = Inr r"
  shows "failureShape r"
  using scrapePage_try_down [OF assms(1), of this u kws] scrapePage_cases [OF assms(2)]
  by (auto simp: failedResult_shape)

lemma scrapePage_down_error:
  assumes "spec_backendDown w e" and "browser_newPage w u = None" and "page_close w u = None"
    and "page_render w u = Inr page"
  shows "scrapePage w this u kws = Inr (failedResult w u e)"
  unfolding scrapePage_def scrapePage_try_def Let_def
  by (simp add: assms extractMainContent_down [OF assms(1)])

lemma scrapeOne_down:
  assumes "spec_backendDown w e" and "enableAIExtraction this"
  shows "failureShape (scrapeOne w this kws u)"
proof (cases "scrapeUrl w this u kws False")
  case (Inl e)
  then show ?thesis
    by (simp add: scrapeOne_def emptyResult_def failureShape_def)
next
  case (Inr r)
  then have "r = scrapeWithoutBrowser w this u kws \<or> scrapePage w this u kws = Inr r"
    unfolding scrapeUrl_def by (auto split: strategy.splits option.splits sum.splits)
  then have "failureShape r"
    using scrapeWithoutBrowser_down [OF assms] scrapePage_down [OF assms(1)] by blast
  with Inr show ?thesis
    by (simp add: scrapeOne_def)
qed


lemma summarizerDownEnv_down: "spec_backendDown summarizerDownEnv (Error ''Service Unavailable'')"
  by (simp add: spec_backendDown_def summarizerDownEnv_def onlineEnv_def offlineEnv_def)


text \<open>
  Claim C3, as the code has it.  When every summarization stage fails, no exception
  leaves the per-URL step, but the agent does not fall back to the raw text:
  \<open>extractMainContent\<close> throws the error of \<open>generateText\<close>, the \<open>catch\<close> block of
  the scraper turns it into a failed page result carrying that message, and so every
  entry the job pushes for such a URL is a failure (for the lightweight scrape when AI
  extraction is enabled, which is the default; the rendered scrape always calls the
  summarizer).  In \<open>web-scraper.js\<close>, \<open>processWithAI\<close> returns a fixed fallback: a
  summary line built from title and description, empty lists, the sentiment
  \<open>unknown\<close> and the error message.  Neither object has a \<open>degraded\<close> field.
\<close>

theorem summarizer_unavailable:
  "(spec_backendDown w e \<longrightarrow>
      extractMainContent w this t kws = Inl e
      \<and> (enableAIExtraction this \<longrightarrow> failureShape (scrapeOne w this kws u))
      \<and> (enableAIExtraction this \<and> fetchWithRetries w this u 0 = Inr (Some response)
           \<and> scoreKeywords w (collapseSpaces (trim (selText (mainElementOf (remove noise
                (cheerio_load w (resp_data response))))))) kws [] = Inr km \<longrightarrow>
          scrapeWithoutBrowser w this u kws = (failedResult w u e)\<lparr> method' := Some ''lightweight'' \<rparr>)
      \<and> (browser_newPage w u = None \<and> page_close w u = None \<and> page_render w u = Inr page \<longrightarrow>
          scrapePage w this u kws = Inr (failedResult w u e)))
   \<and> ((\<forall>ctx. ai ctx = Inl e) \<longrightarrow>
        processWithAI ai extractedData u maxLen =
          \<lparr> summary = Some (''Failed to generate AI summary. Original title: ''
                @ ex_title extractedData @ ''. Description: '' @ ex_description extractedData),
            keyPoints = Some [], topics = Some [], sentiment = Some ''unknown'',
            entities = Some [], ai_error = Some (message e) \<rparr>)"
  using extractMainContent_down scrapeOne_down scrapeWithoutBrowser_down_error scrapePage_down_error
  by (simp add: processWithAI_def Let_def)

theorem summarizer_unavailable_witness:
  "spec_backendDown summarizerDownEnv (Error ''Service Unavailable'')
   \<and> enableAIExtraction (constructor defaultOptions)
   \<and> extractMainContent summarizerDownEnv (constructor defaultOptions) ''GPT-4 is here.'' [''GPT-4'']
       = Inl (Error ''Service Unavailable'')
   \<and> failureShape (scrapeOne summarizerDownEnv (constructor defaultOptions) [''GPT-4'']
         ''https://example.com/news'')
   \<and> scrapeWithoutBrowser summarizerDownEnv (constructor defaultOptions)
         ''https://en.wikipedia.org/wiki/Web_scraping'' [''GPT-4'']
       = (failedResult summarizerDownEnv ''https://en.wikipedia.org/wiki/Web_scraping''
           (Error ''Service Unavailable''))\<lparr> method' := Some ''lightweight'' \<rparr>
   \<and> scrapePage summarizerDownEnv (constructor defaultOptions) ''https://example.com/news'' [''GPT-4'']
       = Inr (failedResult summarizerDownEnv ''https://example.com/news'' (Error ''Service Unavailable''))
   \<and> processWithAI (\<lambda>ctx. Inl (Error ''429 Too Many Requests'')) sampleExtracted
         ''https://example.com/news'' None
       = \<lparr> summary = Some ''Failed to generate AI summary. Original title: Sample page. Description: A page'',
           keyPoints = Some [], topics = Some [], sentiment = Some ''unknown'',
           entities = Some [], ai_error = Some ''429 Too Many Requests'' \<rparr>"
proof -
  have ai: "enableAIExtraction (constructor defaultOptions)"
    by code_simp
  have f: "fetchWithRetries summarizerDownEnv (constructor defaultOptions)
             ''https://en.wikipedia.org/wiki/Web_scraping'' 0 = Inr (Some sampleResponse)"
    by code_simp
  have k: "scoreKeywords summarizerDownEnv (collapseSpaces (trim (selText (mainElementOf (remove noise
             (cheerio_load summarizerDownEnv (resp_data sampleResponse))))))) [''GPT-4''] []
           = Inr [(''GPT-4'', 3)]"
    by code_simp
  have p: "browser_newPage summarizerDownEnv ''https://example.com/news'' = None"
    "page_close summarizerDownEnv ''https://example.com/news'' = None"
    "page_render summarizerDownEnv ''https://example.com/news''
       = Inr \<lparr> page_title = ''Sample page'', page_description = [],
               page_innerText = ''GPT-4 is here. GPT-4 rocks.'' \<rparr>"
    by (simp_all add: summarizerDownEnv_def onlineEnv_def offlineEnv_def)
  have x: "ex_title sampleExtracted = ''Sample page''" "ex_description sampleExtracted = ''A page''"
    by (simp_all add: sampleExtracted_def)
  show ?thesis
    using summarizerDownEnv_down ai f k p
      summarizer_unavailable [where w = summarizerDownEnv and e = "Error ''Service Unavailable''"
        and this = "constructor defaultOptions" and t = "''GPT-4 is here.''" and kws = "[''GPT-4'']"
        and u = "''https://example.com/news''"]
      summarizer_unavailable [where w = summarizerDownEnv and e = "Error ''Service Unavailable''"
        and this = "constructor defaultOptions" and kws = "[''GPT-4'']"
        and u = "''https://en.wikipedia.org/wiki/Web_scraping''" and response = sampleResponse
        and km = "[(''GPT-4'', 3)]"]
      summarizer_unavailable [where ai = "\<lambda>ctx. Inl (Error ''429 Too Many Requests'')"
        and e = "Error ''429 Too Many Requests''" and extractedData = sampleExtracted
        and u = "''https://example.com/news''" and maxLen = None]
    by (simp add: x)
qed


text \<open>Claim C3 as stated fails: the page is fetched, both summarizers are down, and
  the page result is a failure with the summarizer's message and no main content.\<close>

theorem summarizer_unavailable_counterexample:
  "spec_backendDown summarizerDownEnv (Error ''Service Unavailable'')
   \<and> fetchWithRetries summarizerDownEnv (constructor defaultOptions)
         ''https://en.wikipedia.org/wiki/Web_scraping'' 0 = Inr (Some sampleResponse)
   \<and> \<not> success (scrapeWithoutBrowser summarizerDownEnv (constructor defaultOptions)
         ''https://en.wikipedia.org/wiki/Web_scraping'' [''GPT-4''])
   \<and> mainContent (scrapeWithoutBrowser summarizerDownEnv (constructor defaultOptions)
         ''https://en.wikipedia.org/wiki/Web_scraping'' [''GPT-4'']) = None
   \<and> error (scrapeWithoutBrowser summarizerDownEnv (constructor defaultOptions)
         ''https://en.wikipedia.org/wiki/Web_scraping'' [''GPT-4'']) = Some ''Service Unavailable''"
proof -
  have "fetchWithRetries summarizerDownEnv (constructor defaultOptions)
         ''https://en.wikipedia.org/wiki/Web_scraping'' 0 = Inr (Some sampleResponse)"
    "\<not> success (scrapeWithoutBrowser summarizerDownEnv (constructor defaultOptions)
         ''https://en.wikipedia.org/wiki/Web_scraping'' [''GPT-4''])"
    "mainContent (scrapeWithoutBrowser summarizerDownEnv (constructor defaultOptions)
         ''https://en.wikipedia.org/wiki/Web_scraping'' [''GPT-4'']) = None"
    "error (scrapeWithoutBrowser summarizerDownEnv (constructor defaultOptions)
         ''https://en.wikipedia.org/wiki/Web_scraping'' [''GPT-4'']) = Some ''Service Unavailable''"
    by code_simp+
  with summarizerDownEnv_down show ?thesis
    by simp
qed

section \<open>The main content region\<close>

text \<open>The scan keeps a pair of the longest text seen and its container.  Started from
  \<open>m\<close>, it ends where it started when no container is longer than \<open>m\<close>, and
  otherwise with the greatest length and the first container that has it.\<close>

lemma largest_all_small:
  "\<forall>c \<in> set cs. textLengthOf c \<le> m \<Longrightarrow> largestTextContainer (m, best) cs = (m, best)"
  by (induction cs) auto

lemma largest_general:
  "\<not> (\<forall>c \<in> set cs. textLengthOf c \<le> m) \<Longrightarrow>
   \<exists>c. List.find (\<lambda>c. textLengthOf c = Max (set (m # map textLengthOf cs))) cs = Some c
       \<and> largestTextContainer (m, best) cs = (Max (set (m # map textLengthOf cs)), [c])"
proof (induction cs arbitrary: m best)
  case Nil
  then show ?case by simp
next
  case (Cons c cs)
  let ?M = "Max (set (m # map textLengthOf (c # cs)))"
  show ?case
  proof (cases "textLengthOf c > m")
    case longer: True
    show ?thesis
    proof (cases "\<forall>d \<in> set cs. textLengthOf d \<le> textLengthOf c")
      case True
      then have "?M = textLengthOf c"
        using longer by (intro Max_eqI) auto
      moreover have "largestTextContainer (m, best) (c # cs) = (textLengthOf c, [c])"
        using longer True by (simp add: largest_all_small)
      ultimately show ?thesis by simp
    next
      case False
      from Cons.IH [OF False, of "[c]"] obtain d where
        d: "List.find (\<lambda>x. textLengthOf x = Max (set (textLengthOf c # map textLengthOf cs))) cs = Some d"
        "largestTextContainer (textLengthOf c, [c]) cs
           = (Max (set (textLengthOf c # map textLengthOf cs)), [d])"
        by blast
      have "Max (insert m (insert (textLengthOf c) (textLengthOf ` set cs)))
              = max m (Max (insert (textLengthOf c) (textLengthOf ` set cs)))"
        by (rule Max_insert) auto
      moreover have "m \<le> Max (insert (textLengthOf c) (textLengthOf ` set cs))"
        using longer by (intro order_trans [OF less_imp_le Max_ge]) auto
      ultimately have eq: "?M = Max (set (textLengthOf c # map textLengthOf cs))"
        by (simp add: max.absorb2)
      from False obtain x where "x \<in> set cs" "textLengthOf x > textLengthOf c"
        by (auto simp: not_le)
      then have "Max (set (textLengthOf c # map textLengthOf cs)) > textLengthOf c"
        by (auto simp: Max_gr_iff)
      with d eq longer show ?thesis
        by simp
    qed
  next
    case shorter: False
    with Cons.prems have rest: "\<not> (\<forall>d \<in> set cs. textLengthOf d \<le> m)"
      by auto
    from Cons.IH [OF rest, of best] obtain d where
      d: "List.find (\<lambda>x. textLengthOf x = Max (set (m # map textLengthOf cs))) cs = Some d"
      "largestTextContainer (m, best) cs = (Max (set (m # map textLengthOf cs)), [d])"
      by blast
    have "insert m (insert (textLengthOf c) (textLengthOf ` set cs))
            = insert (textLengthOf c) (insert m (textLengthOf ` set cs))"
      by auto
    then have "Max (insert m (insert (textLengthOf c) (textLengthOf ` set cs)))
            = max (textLengthOf c) (Max (insert m (textLengthOf ` set cs)))"
      by (simp only: Max_insert [of "insert m (textLengthOf ` set cs)" "textLengthOf c"] finite_insert
          finite_imageI finite_set insert_not_empty not_False_eq_True)
    moreover have "textLengthOf c \<le> Max (insert m (textLengthOf ` set cs))"
      using shorter by (intro order_trans [OF _ Max_ge, of _ m]) auto
    ultimately have eq: "?M = Max (set (m # map textLengthOf cs))"
      by (simp add: max.absorb2)
    from rest obtain x where "x \<in> set cs" "textLengthOf x > m"
      by (auto simp: not_le)
    then have "Max (set (m # map textLengthOf cs)) > m"
      by (auto simp: Max_gr_iff)
    with d eq shorter show ?thesis
      by simp
  qed
qed

lemma spec_longest_zero: "spec_longest cs = 0 \<longleftrightarrow> (\<forall>c \<in> set cs. textLengthOf c \<le> 0)"
proof -
  have "spec_longest cs = 0 \<longleftrightarrow> Max (insert 0 (textLengthOf ` set cs)) \<le> 0"
    by (simp add: spec_longest_def)
  also have "\<dots> \<longleftrightarrow> (\<forall>a \<in> insert 0 (textLengthOf ` set cs). a \<le> 0)"
    by (rule Max_le_iff) auto
  finally show ?thesis
    by auto
qed

lemma largest_is_spec:
  "snd (largestTextContainer (0, body) cs) = spec_mainContainer body cs"
proof (cases "\<forall>c \<in> set cs. textLengthOf c \<le> 0")
  case True
  then show ?thesis
    by (simp add: largest_all_small spec_mainContainer_def spec_longest_zero)
next
  case False
  from largest_general [OF False, of body] obtain c where
    c: "List.find (\<lambda>c. textLengthOf c = spec_longest cs) cs = Some c"
    "largestTextContainer (0, body) cs = (spec_longest cs, [c])"
    unfolding spec_longest_def by blast
  have "spec_longest cs \<noteq> 0"
    using False by (simp add: spec_longest_zero)
  with c show ?thesis
    by (simp add: spec_mainContainer_def)
qed

lemma find_first_max:
  assumes "List.find (\<lambda>c. textLengthOf c = spec_longest cs) cs = Some c"
  shows "\<exists>i<length cs. c = cs ! i \<and> (\<forall>j<length cs. textLengthOf (cs ! j) \<le> textLengthOf (cs ! i))
          \<and> (\<forall>j<i. textLengthOf (cs ! j) < textLengthOf (cs ! i))"
proof -
  from assms obtain i where i: "i < length cs" "textLengthOf (cs ! i) = spec_longest cs" "c = cs ! i"
    "\<forall>j<i. textLengthOf (cs ! j) \<noteq> spec_longest cs"
    by (auto simp: find_Some_iff)
  have le: "textLengthOf (cs ! j) \<le> spec_longest cs" if "j < length cs" for j
    unfolding spec_longest_def using that by (intro Max_ge) auto
  have "textLengthOf (cs ! j) < textLengthOf (cs ! i)" if "j < i" for j
    using le [of j] i that by (simp add: order.strict_iff_order)
  with i le show ?thesis
    by auto
qed

lemma spec_mainContainer_first_max:
  assumes "\<exists>c \<in> set cs. textLengthOf c > 0"
  shows "\<exists>i<length cs. spec_mainContainer body cs = [cs ! i]
          \<and> (\<forall>j<length cs. textLengthOf (cs ! j) \<le> textLengthOf (cs ! i))
          \<and> (\<forall>j<i. textLengthOf (cs ! j) < textLengthOf (cs ! i))"
proof -
  have n: "\<not> (\<forall>c \<in> set cs. textLengthOf c \<le> 0)"
    using assms by auto
  from largest_general [OF n, of body] obtain c where
    c: "List.find (\<lambda>c. textLengthOf c = spec_longest cs) cs = Some c"
    unfolding spec_longest_def by blast
  have "spec_longest cs \<noteq> 0"
    using n by (simp add: spec_longest_zero)
  with c have "spec_mainContainer body cs = [c]"
    by (simp add: spec_mainContainer_def)
  with find_first_max [OF c] show ?thesis
    by auto
qed

lemma spec_mainContainer_no_text:
  "\<forall>c \<in> set cs. textLengthOf c = 0 \<Longrightarrow> spec_mainContainer body cs = body"
  by (simp add: spec_mainContainer_def spec_longest_zero)

lemma two_divs:
  assumes "length (trim a) < length (trim b)"
  shows "mainElementOf [Element ''body'' [] [Element ''div'' [] [Text a], Element ''div'' [] [Text b]]]
           = [([0, 1], Element ''div'' [] [Text b])]"
    "mainElementOf [Element ''body'' [] [Element ''div'' [] [Text b], Element ''div'' [] [Text a]]]
           = [([0, 0], Element ''div'' [] [Text b])]"
  using assms
  by (auto simp: mainElementOf_def select_def allElements_def semanticContainer_def hasTag_def
      hasClass_def hasAttr_def blockContainer_def textLengthOf_def selText_def)


text \<open>
  Claim C8.  When no element matches the semantic selectors, the main element is the
  first of the \<open>div\<close> and \<open>section\<close> elements, in document order, whose trimmed text
  is the longest, and it is the \<open>body\<close> selection when none of them has text.  With
  two sibling \<open>div\<close>s of trimmed text lengths 100 and 500, in either order, the one
  of length 500 is selected.  \<open>scrapeWithoutBrowser\<close> and \<open>extractContent\<close> of
  \<open>web-scraper.js\<close> both take their text from this element.
\<close>

theorem mainElement_fallback:
  "(select semanticContainer doc = [] \<longrightarrow>
      mainElementOf doc = spec_mainContainer (select (hasTag [''body'']) doc) (select blockContainer doc))
   \<and> ((\<exists>c \<in> set cs. textLengthOf c > 0) \<longrightarrow>
        (\<exists>i<length cs. spec_mainContainer body cs = [cs ! i]
          \<and> (\<forall>j<length cs. textLengthOf (cs ! j) \<le> textLengthOf (cs ! i))
          \<and> (\<forall>j<i. textLengthOf (cs ! j) < textLengthOf (cs ! i))))
   \<and> ((\<forall>c \<in> set cs. textLengthOf c = 0) \<longrightarrow> spec_mainContainer body cs = body)
   \<and> (length (trim a) = 100 \<and> length (trim b) = 500 \<longrightarrow>
        mainElementOf [Element ''body'' [] [Element ''div'' [] [Text a], Element ''div'' [] [Text b]]]
          = [([0, 1], Element ''div'' [] [Text b])]
        \<and> mainElementOf [Element ''body'' [] [Element ''div'' [] [Text b], Element ''div'' [] [Text a]]]
          = [([0, 0], Element ''div'' [] [Text b])])
   \<and> ex_text (extractContent w html u)
       = replaceBackslashS (trim (selText (mainElementOf (remove ws_noise (cheerio_load w html)))))"
proof (intro conjI impI)
  assume "select semanticContainer doc = []"
  then show "mainElementOf doc
      = spec_mainContainer (select (hasTag [''body'']) doc) (select blockContainer doc)"
    by (simp add: mainElementOf_def largest_is_spec)
next
  assume "\<exists>c \<in> set cs. textLengthOf c > 0"
  then show "\<exists>i<length cs. spec_mainContainer body cs = [cs ! i]
          \<and> (\<forall>j<length cs. textLengthOf (cs ! j) \<le> textLengthOf (cs ! i))
          \<and> (\<forall>j<i. textLengthOf (cs ! j) < textLengthOf (cs ! i))"
    by (rule spec_mainContainer_first_max)
next
  assume "\<forall>c \<in> set cs. textLengthOf c = 0"
  then show "spec_mainContainer body cs = body"
    by (rule spec_mainContainer_no_text)
next
  assume "length (trim a) = 100 \<and> length (trim b) = 500"
  then have "length (trim a) < length (trim b)"
    by simp
  then show "mainElementOf [Element ''body'' [] [Element ''div'' [] [Text a], Element ''div'' [] [Text b]]]
          = [([0, 1], Element ''div'' [] [Text b])]"
    "mainElementOf [Element ''body'' [] [Element ''div'' [] [Text b], Element ''div'' [] [Text a]]]
          = [([0, 0], Element ''div'' [] [Text b])]"
    by (rule two_divs)+
next
  show "ex_text (extractContent w html u)
       = replaceBackslashS (trim (selText (mainElementOf (remove ws_noise (cheerio_load w html)))))"
    by (simp add: extractContent_def Let_def)
qed


theorem mainElement_fallback_witness:
  "select semanticContainer (remove noise samplePage) = []
   \<and> map fst (mainElementOf (remove noise samplePage)) = [[0, 1, 1]]
   \<and> mainElementOf tiePage = [([0, 0], Element ''section'' [] [Text ''first''])]
   \<and> mainElementOf blankPage = select (hasTag [''body'']) blankPage
   \<and> mainElementOf [Element ''body'' []
        [Element ''div'' [] [Text (replicate 100 CHR ''a'')],
         Element ''div'' [] [Text (replicate 500 CHR ''b'')]]]
       = [([0, 1], Element ''div'' [] [Text (replicate 500 CHR ''b'')])]"
proof -
  have s: "select semanticContainer (remove noise samplePage) = []"
    "select semanticContainer tiePage = []" "select semanticContainer blankPage = []"
    by code_simp+
  have v: "map fst (spec_mainContainer (select (hasTag [''body'']) (remove noise samplePage))
             (select blockContainer (remove noise samplePage))) = [[0, 1, 1]]"
    "spec_mainContainer (select (hasTag [''body'']) tiePage) (select blockContainer tiePage)
       = [([0, 0], Element ''section'' [] [Text ''first''])]"
    by code_simp+
  have b: "\<forall>c \<in> set (select blockContainer blankPage). textLengthOf c = 0"
    by code_simp
  have l: "length (trim (replicate 100 CHR ''a'')) = 100 \<and> length (trim (replicate 500 CHR ''b'')) = 500"
    by code_simp
  show ?thesis
    using s v l
      mainElement_fallback [where doc = "remove noise samplePage"]
      mainElement_fallback [where doc = tiePage]
      mainElement_fallback [where doc = blankPage and cs = "select blockContainer blankPage"
        and body = "select (hasTag [''body'']) blankPage", THEN conjunct2, THEN conjunct2,
        THEN conjunct1, THEN mp, OF b]
      mainElement_fallback [where a = "replicate 100 CHR ''a''" and b = "replicate 500 CHR ''b''"]
    by simp
qed

section \<open>Properties of URL discovery\<close>

lemma length_slice0: "0 \<le> n \<Longrightarrow> int (length (slice0 xs n)) \<le> n"
  by (simp add: slice0_def)

lemma length_slice0_le: "length (slice0 xs n) \<le> length xs"
  by (auto simp: slice0_def)

lemma searchForUrls_try_bound:
  assumes "searchForUrls_try w query m = Inr found"
  shows "(\<forall>n. m = Some n \<and> 0 \<le> n \<longrightarrow> int (length found) \<le> n) \<and> (m = None \<longrightarrow> length found \<le> 3)
         \<and> length found \<le> 2"
proof -
  from assms obtain xs where xs: "found = slice0 xs (case m of None \<Rightarrow> 3 | Some n \<Rightarrow> n)" "length xs \<le> 2"
    unfolding searchForUrls_try_def Let_def
    by (auto split: option.splits if_splits)
  have "length found \<le> 2"
    using xs length_slice0_le [of xs] by (metis order_trans)
  moreover have "int (length found) \<le> n" if "m = Some n" "0 \<le> n" for n
    using xs that by (simp add: length_slice0)
  ultimately show ?thesis
    by auto
qed

lemma searchForUrls_returns: "\<exists>found. searchForUrls w query m = Inr found"
  by (simp add: searchForUrls_def split: sum.splits)

lemma quantum:
  assumes "logActivity w ''Searching for URLs'' = None"
  shows "searchForUrls w ''what is quantum computing'' (Some 3)
           = Inr [''https://en.wikipedia.org/wiki/quantum%20computing'']"
proof -
  have "toLowerCase ''what is quantum computing'' = ''what is quantum computing''"
    by code_simp
  moreover have "\<not> includes' ''what is quantum computing'' ''weather''"
    "\<not> includes' ''what is quantum computing'' ''news''"
    "findAlt interrogatives ''what is quantum computing'' = Some (0, 7)"
    "removeFirstAlt interrogatives ''what is quantum computing'' = '' quantum computing''"
    "trim '' quantum computing'' = ''quantum computing''"
    "encodeURIComponent ''quantum computing'' = ''quantum%20computing''"
    by code_simp+
  ultimately show ?thesis
    using assms by (simp add: searchForUrls_def searchForUrls_try_def slice0_def)
qed

lemma empty_query:
  assumes "logActivity w ''Searching for URLs'' = None"
  shows "searchForUrls w [] (Some 3)
           = Inr [''https://en.wikipedia.org/wiki/Special:Search?search='',
                  ''https://www.britannica.com/search?query='']"
proof -
  have "toLowerCase [] = []" "\<not> includes' [] ''weather''" "\<not> includes' [] ''news''"
    "findAlt interrogatives [] = None" "encodeURIComponent [] = []"
    by code_simp+
  then show ?thesis
    using assms by (simp add: searchForUrls_def searchForUrls_try_def slice0_def)
qed

text \<open>
  Claim C4, as the code has it.  \<open>searchForUrls\<close> returns for every query, with at
  most \<open>maxResults\<close> URLs when \<open>maxResults\<close> is not negative (and at most 3 when it
  is left out).  While the activity log accepts the entry, the query
  \<open>what is quantum computing\<close> gives the Wikipedia page of \<open>quantum computing\<close>, and
  the empty query gives the two fallback search URLs with an empty search term.  When
  the activity log rejects the entry, the result is the empty list.
\<close>

theorem searchForUrls_never_throws:
  "(\<exists>found. searchForUrls w query m = Inr found
      \<and> (\<forall>n. m = Some n \<and> 0 \<le> n \<longrightarrow> int (length found) \<le> n)
      \<and> (m = None \<longrightarrow> length found \<le> 3))
   \<and> (logActivity w ''Searching for URLs'' = None \<longrightarrow>
        searchForUrls w ''what is quantum computing'' (Some 3)
          = Inr [''https://en.wikipedia.org/wiki/quantum%20computing''])
   \<and> (logActivity w ''Searching for URLs'' = None \<longrightarrow>
        searchForUrls w [] (Some 3)
          = Inr [''https://en.wikipedia.org/wiki/Special:Search?search='',
                 ''https://www.britannica.com/search?query=''])
   \<and> (logActivity w ''Searching for URLs'' = Some e \<longrightarrow> searchForUrls w query m = Inr [])"
proof (intro conjI impI)
  show "\<exists>found. searchForUrls w query m = Inr found
      \<and> (\<forall>n. m = Some n \<and> 0 \<le> n \<longrightarrow> int (length found) \<le> n)
      \<and> (m = None \<longrightarrow> length found \<le> 3)"
  proof (cases "searchForUrls_try w query m")
    case (Inl e)
    then show ?thesis by (simp add: searchForUrls_def)
  next
    case (Inr found)
    with searchForUrls_try_bound [OF Inr] show ?thesis
      by (simp add: searchForUrls_def)
  qed
next
  assume "logActivity w ''Searching for URLs'' = None"
  then show "searchForUrls w ''what is quantum computing'' (Some 3)
          = Inr [''https://en.wikipedia.org/wiki/quantum%20computing'']"
    by (rule quantum)
next
  assume "logActivity w ''Searching for URLs'' = None"
  then show "searchForUrls w [] (Some 3)
          = Inr [''https://en.wikipedia.org/wiki/Special:Search?search='',
                 ''https://www.britannica.com/search?query='']"
    by (rule empty_query)
next
  assume "logActivity w ''Searching for URLs'' = Some e"
  then show "searchForUrls w query m = Inr []"
    by (simp add: searchForUrls_def searchForUrls_try_def)
qed

theorem searchForUrls_never_throws_witness:
  "searchForUrls offlineEnv ''what is quantum computing'' (Some 3)
     = Inr [''https://en.wikipedia.org/wiki/quantum%20computing'']
   \<and> searchForUrls offlineEnv [] (Some 3)
     = Inr [''https://en.wikipedia.org/wiki/Special:Search?search='',
            ''https://www.britannica.com/search?query='']
   \<and> searchForUrls (offlineEnv\<lparr> logActivity := (\<lambda>msg. Some (Error ''log unavailable'')) \<rparr>)
       ''weather in Paris'' (Some 3) = Inr []
   \<and> searchForUrls offlineEnv ''latest news'' (Some 0) = Inr []"
proof -
  have ok: "logActivity offlineEnv ''Searching for URLs'' = None"
    by (simp add: offlineEnv_def)
  have bad: "logActivity (offlineEnv\<lparr> logActivity := (\<lambda>msg. Some (Error ''log unavailable'')) \<rparr>)
      ''Searching for URLs'' = Some (Error ''log unavailable'')"
    by simp
  from searchForUrls_never_throws [of offlineEnv "''latest news''" "Some 0"]
  have "searchForUrls offlineEnv ''latest news'' (Some 0) = Inr []"
    by auto
  with ok bad show ?thesis
    using searchForUrls_never_throws [of offlineEnv]
      searchForUrls_never_throws [of "offlineEnv\<lparr> logActivity := (\<lambda>msg. Some (Error ''log unavailable'')) \<rparr>"
        "''weather in Paris''" "Some 3" "Error ''log unavailable''"]
    by simp
qed

text \<open>Claim C4 as stated fails: for the empty query the result is not empty but the
  two fallback search URLs; and a negative \<open>maxResults\<close> cuts from the end of the list,
  so \<open>-1\<close> leaves one URL.\<close>

theorem searchForUrls_empty_query_counterexample:
  "searchForUrls offlineEnv [] (Some 3)
     = Inr [''https://en.wikipedia.org/wiki/Special:Search?search='',
            ''https://www.britannica.com/search?query='']
   \<and> searchForUrls offlineEnv [] (Some 3) \<noteq> Inr []
   \<and> searchForUrls offlineEnv ''scraping'' (Some (- 1))
     = Inr [''https://en.wikipedia.org/wiki/Special:Search?search=scraping'']"
  by code_simp

section \<open>Properties of keyword scoring\<close>

text \<open>For a plain keyword the constructor does not throw, the pattern is the keyword's
  characters between two word boundaries, and one attempt of the matcher succeeds
  exactly where the keyword occurs as a whole word.\<close>

lemma plain_Cons: "isPlain (c # cs) \<longleftrightarrow> \<not> isSyntaxChar c \<and> isPlain cs"
  by (simp add: isPlain_def)

lemma plain_char:
  assumes "\<not> isSyntaxChar c"
  shows "\<not> isQuantifierChar c" "atomOf c = Lit c" "\<not> outsideFragment c"
  using assms by (auto simp: isSyntaxChar_def isQuantifierChar_def atomOf_def outsideFragment_def)

lemma plain_inFragment: "isPlain k \<Longrightarrow> inFragment k"
  by (induction k) (auto simp: isPlain_def inFragment_def plain_char)

lemma parseTerms_plain: "isPlain k \<Longrightarrow> parseTerms k = Inr (map (\<lambda>c. Match (Lit c) Once) k)"
proof (induction k)
  case Nil
  then show ?case by simp
next
  case (Cons c cs)
  then have c: "\<not> isSyntaxChar c" and cs: "isPlain cs"
    by (simp_all add: plain_Cons)
  show ?case
  proof (cases cs)
    case Nil
    then show ?thesis
      using c by (simp add: plain_char)
  next
    case (Cons q rest)
    then have "\<not> isQuantifierChar q"
      using cs by (simp add: plain_Cons plain_char)
    then show ?thesis
      using c Cons.IH [OF cs] Cons by (simp add: plain_char consTerm_def)
  qed
qed

lemma compileKeyword_plain:
  "isPlain k \<Longrightarrow> compileKeyword k = Inr (WordBoundary # map (\<lambda>c. Match (Lit c) Once) k @ [WordBoundary])"
  by (simp add: compileKeyword_def parseTerms_plain)

lemma matchHere_literals:
  "matchHere (map (\<lambda>c. Match (Lit c) Once) k @ [WordBoundary]) prev s =
     (if startsWithCI s k \<and> isBoundary (prevAfter prev s (length k)) (drop (length k) s)
      then Some (length k) else None)"
proof (induction k arbitrary: prev s)
  case Nil
  then show ?case
    by (simp add: prevAfter_def)
next
  case (Cons a k)
  show ?case
  proof (cases s)
    case Nil
    then show ?thesis by simp
  next
    case (Cons c cs)
    show ?thesis
    proof (cases "canon c = canon a")
      case False
      then show ?thesis
        using Cons by auto
    next
      case True
      then have run: "1 \<le> length (takeWhile (atomMatches (Lit a)) s)"
        using Cons by simp
      have p: "prevAfter (Some c) cs (length k) = prevAfter prev (c # cs) (Suc (length k))"
        by (cases "length k") (simp_all add: prevAfter_def)
      show ?thesis
        using True run Cons Cons.IH [of "Some c" cs] p
        by (simp add: prevAfter_def)
    qed
  qed
qed

lemma matchHere_plain:
  "matchHere (WordBoundary # map (\<lambda>c. Match (Lit c) Once) k @ [WordBoundary]) = spec_wholeWord k"
  by (intro ext) (auto simp: matchHere_literals spec_wholeWord_def spec_occursAt_def)

lemma keywordCount_plain: "isPlain k \<Longrightarrow> keywordCount w txt k = Inr (spec_count txt k)"
  by (simp add: keywordCount_def plain_inFragment compileKeyword_plain scanFrom_def matchHere_plain
      spec_count_def)

text \<open>A keyword that does not occur in the text, ignoring case, is counted 0 times.\<close>

lemma matchAll_none:
  "(\<And>p t. suffix t s \<Longrightarrow> m p t = None) \<Longrightarrow> matchAll m prev s = 0"
proof (induction s arbitrary: prev)
  case Nil
  then show ?case by simp
next
  case (Cons c cs)
  have "m prev (c # cs) = None"
    by (rule Cons.prems) simp
  moreover have "matchAll m (Some c) cs = 0"
    by (rule Cons.IH) (simp add: Cons.prems suffix_Cons)
  ultimately show ?case by simp
qed

lemma startsWithCI_prefix: "startsWithCI s k \<Longrightarrow> prefix (map canon k) (map canon s)"
  by (induction s k rule: startsWithCI.induct) auto

lemma spec_count_absent:
  assumes "\<not> sublist (map canon k) (map canon txt)"
  shows "spec_count txt k = 0"
  unfolding spec_count_def
proof (rule matchAll_none)
  fix p t
  assume t: "suffix t txt"
  show "spec_wholeWord k p t = None"
  proof (rule ccontr)
    assume "spec_wholeWord k p t \<noteq> None"
    then have "startsWithCI t k"
      by (simp add: spec_wholeWord_def spec_occursAt_def split: if_splits)
    then have "sublist (map canon k) (map canon t)"
      by (intro prefix_imp_sublist startsWithCI_prefix)
    moreover have "sublist (map canon t) (map canon txt)"
      using t by (intro suffix_imp_sublist) (auto simp: suffix_def)
    ultimately show False
      using assms sublist_order.order_trans by blast
  qed
qed

text \<open>Assignment to a key other than \<open>__proto__\<close> sets this key and leaves the
  others as they are, wherever the key is placed among them.\<close>

lemma map_of_updateKey: "map_of (updateKey k v al) = (map_of al)(k \<mapsto> v)"
  by (induction al) (auto simp: fun_eq_iff)

lemma map_of_insertIndex: "map_of al k = None \<Longrightarrow> map_of (insertIndex k v al) = (map_of al)(k \<mapsto> v)"
  by (induction al) (auto simp: fun_eq_iff split: if_splits)

lemma map_of_objSet: "k \<noteq> ''__proto__'' \<Longrightarrow> map_of (objSet obj k v) = (map_of obj)(k \<mapsto> v)"
  by (simp add: objSet_def map_of_updateKey map_of_insertIndex)

lemma keys_objSet: "k \<noteq> ''__proto__'' \<Longrightarrow> fst ` set (objSet obj k v) = insert k (fst ` set obj)"
  by (simp add: dom_map_of_conv_image_fst [symmetric] map_of_objSet)

lemma fold_add: "fold (\<lambda>b a. a + b) xs (n :: nat) = n + sum_list xs"
  by (induction xs arbitrary: n) simp_all

lemma totalMatches_sum: "totalMatches obj = sum_list (map snd obj)"
  by (simp add: totalMatches_def fold_add)

lemma sum_updateKey_fresh: "k \<notin> fst ` set al \<Longrightarrow> sum_list (map snd (updateKey k v al)) = sum_list (map snd al) + v"
  by (induction al) auto

lemma sum_insertIndex: "sum_list (map snd (insertIndex k v al)) = sum_list (map snd al) + v"
  by (induction al) auto

lemma totalMatches_objSet:
  "k \<noteq> ''__proto__'' \<Longrightarrow> k \<notin> fst ` set obj \<Longrightarrow> totalMatches (objSet obj k v) = totalMatches obj + v"
  by (simp add: totalMatches_sum objSet_def sum_updateKey_fresh sum_insertIndex)

lemma scoreKeywords_plain:
  "\<forall>k \<in> set kws. isPlain k \<Longrightarrow>
   scoreKeywords w txt kws acc = Inr (foldl (\<lambda>obj k. objSet obj k (spec_count txt k)) acc kws)"
  by (induction kws arbitrary: acc) (simp_all add: keywordCount_plain)

lemma map_of_foldl:
  "''__proto__'' \<notin> set kws \<Longrightarrow>
   map_of (foldl (\<lambda>obj k. objSet obj k (f k)) acc kws) k
     = (if k \<in> set kws then Some (f k) else map_of acc k)"
  by (induction kws arbitrary: acc) (auto simp: map_of_objSet)

lemma keys_foldl:
  "''__proto__'' \<notin> set kws \<Longrightarrow>
   fst ` set (foldl (\<lambda>obj k. objSet obj k (f k)) acc kws) = fst ` set acc \<union> set kws"
proof (induction kws arbitrary: acc)
  case Nil
  then show ?case by simp
next
  case (Cons k kws)
  then have "k \<noteq> ''__proto__''" "''__proto__'' \<notin> set kws"
    by auto
  then show ?case
    using Cons.IH [of "objSet acc k (f k)"] by (simp add: keys_objSet)
qed

lemma totalMatches_foldl:
  "''__proto__'' \<notin> set kws \<Longrightarrow> distinct kws \<Longrightarrow> fst ` set acc \<inter> set kws = {} \<Longrightarrow>
   totalMatches (foldl (\<lambda>obj k. objSet obj k (f k)) acc kws) = totalMatches acc + sum_list (map f kws)"
proof (induction kws arbitrary: acc)
  case Nil
  then show ?case by simp
next
  case (Cons k kws)
  then have k: "k \<noteq> ''__proto__''" "k \<notin> fst ` set acc"
    by auto
  then have "fst ` set (objSet acc k (f k)) \<inter> set kws = {}"
    using Cons.prems by (auto simp: keys_objSet)
  then have "totalMatches (foldl (\<lambda>obj k. objSet obj k (f k)) (objSet acc k (f k)) kws)
      = totalMatches (objSet acc k (f k)) + sum_list (map f kws)"
    using Cons.prems by (intro Cons.IH) auto
  then show ?case
    using k by (simp add: totalMatches_objSet)
qed

lemma gpt4_example:
  "scoreKeywords w ''GPT-4 is here. GPT-4 rocks.'' [''GPT-4''] [] = Inr [(''GPT-4'', 2)]"
proof -
  have "isPlain ''GPT-4''" "spec_count ''GPT-4 is here. GPT-4 rocks.'' ''GPT-4'' = 2"
    "objSet [] ''GPT-4'' 2 = [(''GPT-4'', 2)]"
    by code_simp+
  then show ?thesis
    by (simp add: keywordCount_plain)
qed

text \<open>
  Where the keyword loop does what the specification says.  For keywords without
  regular-expression syntax characters, none of them \<open>__proto__\<close>, the loop throws
  nothing and returns an object whose keys are the keywords, each mapped to the number
  of its whole-word occurrences ignoring case, counted from left to right without
  overlap; the total is the sum of the counts when the keywords are distinct.  A plain
  keyword that is absent from the text has count 0.  The empty keyword list gives the
  empty object and the total 0.  For the text \<open>GPT-4 is here. GPT-4 rocks.\<close> the
  keyword \<open>GPT-4\<close> has count 2.
\<close>

lemma score_plain_keywords:
  "((\<forall>k \<in> set kws. isPlain k) \<and> ''__proto__'' \<notin> set kws \<longrightarrow>
      (\<exists>obj. scoreKeywords w txt kws [] = Inr obj \<and> fst ` set obj = set kws
         \<and> (\<forall>k \<in> set kws. map_of obj k = Some (spec_count txt k))
         \<and> (distinct kws \<longrightarrow> totalMatches obj = sum_list (map (spec_count txt) kws))))
   \<and> (isPlain k \<and> \<not> sublist (map canon k) (map canon txt) \<longrightarrow> keywordCount w txt k = Inr 0)
   \<and> scoreKeywords w txt [] [] = Inr [] \<and> totalMatches [] = 0
   \<and> scoreKeywords w ''GPT-4 is here. GPT-4 rocks.'' [''GPT-4''] [] = Inr [(''GPT-4'', 2)]"
proof (intro conjI impI)
  assume a: "(\<forall>k \<in> set kws. isPlain k) \<and> ''__proto__'' \<notin> set kws"
  let ?obj = "foldl (\<lambda>obj k. objSet obj k (spec_count txt k)) [] kws"
  have "scoreKeywords w txt kws [] = Inr ?obj"
    using a by (simp add: scoreKeywords_plain)
  moreover have "fst ` set ?obj = set kws"
    using a by (simp add: keys_foldl)
  moreover have "\<forall>k \<in> set kws. map_of ?obj k = Some (spec_count txt k)"
    using a by (simp add: map_of_foldl)
  moreover have "totalMatches ?obj = sum_list (map (spec_count txt) kws)" if "distinct kws"
  proof -
    have "totalMatches ?obj = totalMatches [] + sum_list (map (spec_count txt) kws)"
      using a that by (intro totalMatches_foldl) auto
    then show ?thesis
      by (simp add: totalMatches_def)
  qed
  ultimately show "\<exists>obj. scoreKeywords w txt kws [] = Inr obj \<and> fst ` set obj = set kws
         \<and> (\<forall>k \<in> set kws. map_of obj k = Some (spec_count txt k))
         \<and> (distinct kws \<longrightarrow> totalMatches obj = sum_list (map (spec_count txt) kws))"
    by blast
next
  assume "isPlain k \<and> \<not> sublist (map canon k) (map canon txt)"
  then show "keywordCount w txt k = Inr 0"
    by (simp add: keywordCount_plain spec_count_absent)
next
  show "scoreKeywords w txt [] [] = Inr []" by simp
  show "totalMatches [] = 0" by (simp add: totalMatches_def)
  show "scoreKeywords w ''GPT-4 is here. GPT-4 rocks.'' [''GPT-4''] [] = Inr [(''GPT-4'', 2)]"
    by (rule gpt4_example)
qed

text \<open>An instance: the keys are matched ignoring case, an absent keyword is counted 0
  times, the total is the sum.\<close>

lemma score_plain_keywords_example:
  "isPlain ''gpt-4'' \<and> isPlain ''rocks'' \<and> isPlain ''absent''
   \<and> scoreKeywords offlineEnv ''GPT-4 is here. GPT-4 rocks.'' [''gpt-4'', ''rocks'', ''absent''] []
       = Inr [(''gpt-4'', 2), (''rocks'', 1), (''absent'', 0)]
   \<and> totalMatches [(''gpt-4'', 2), (''rocks'', 1), (''absent'', 0)] = 3
   \<and> \<not> sublist (map canon ''absent'') (map canon ''GPT-4 is here. GPT-4 rocks.'')
   \<and> keywordCount offlineEnv ''GPT-4 is here. GPT-4 rocks.'' ''absent'' = Inr 0"
proof -
  have p: "isPlain ''gpt-4''" "isPlain ''rocks''" "isPlain ''absent''"
    "\<not> sublist (map canon ''absent'') (map canon ''GPT-4 is here. GPT-4 rocks.'')"
    by code_simp+
  have v: "scoreKeywords offlineEnv ''GPT-4 is here. GPT-4 rocks.'' [''gpt-4'', ''rocks'', ''absent''] []
       = Inr [(''gpt-4'', 2), (''rocks'', 1), (''absent'', 0)]"
    "totalMatches [(''gpt-4'', 2), (''rocks'', 1), (''absent'', 0)] = 3"
    by code_simp+
  from p have "keywordCount offlineEnv ''GPT-4 is here. GPT-4 rocks.'' ''absent'' = Inr 0"
    using score_plain_keywords [of "[''gpt-4'', ''rocks'', ''absent'']" offlineEnv
        "''GPT-4 is here. GPT-4 rocks.''" "''absent''"]
    by blast
  with p v show ?thesis
    by simp
qed

text \<open>The word boundaries at work: in \<open>cat concat Cat. cat5 tomcat cat\<close> the keyword
  \<open>cat\<close> is counted where it stands alone (three times), not inside \<open>concat\<close>,
  \<open>cat5\<close> or \<open>tomcat\<close>.  Keys that are array indices come first in the object, in
  ascending order, whatever the order of the keywords.\<close>

lemma score_whole_words_example:
  "keywordCount offlineEnv ''cat concat Cat. cat5 tomcat cat'' ''cat'' = Inr 3
   \<and> spec_count ''cat concat Cat. cat5 tomcat cat'' ''cat'' = 3
   \<and> scoreKeywords offlineEnv ''web 10 and 2'' [''web'', ''10'', ''2''] []
       = Inr [(''2'', 1), (''10'', 1), (''web'', 1)]"
  by code_simp

text \<open>
  Claim C5 fails on keywords that are not plain words.  The keyword is spliced into
  the pattern unescaped, so it is read as regular-expression syntax.  For the keyword
  \<open>C++\<close> the second \<open>+\<close> has nothing to repeat: the constructor throws a
  \<open>SyntaxError\<close> whose message names the pattern \<open>\bC++\b\<close>, the keyword loop stops,
  and the catch block of \<open>scrapeWithoutBrowser\<close> turns the whole page, fetched and
  parsed without a fault, into a failure carrying that message.  The keyword \<open>a.c\<close>
  does not occur in \<open>abc\<close> and is counted once there, the dot matching any
  character.  The keyword \<open>__proto__\<close>, a plain word, gets no entry in the object at
  all, although it occurs in the text.
\<close>

theorem scoreKeywords_syntax_error:
  "\<not> isPlain ''C++''
   \<and> keywordPattern ''C++'' = [CHR 0x5C] @ ''bC++'' @ [CHR 0x5C] @ ''b''
   \<and> scoreKeywords offlineEnv ''I like C++ and Rust'' [''C++''] []
       = Inl (SyntaxError (''Invalid regular expression: /'' @ [CHR 0x5C] @ ''bC++'' @ [CHR 0x5C]
               @ ''b/gi: Nothing to repeat''))
   \<and> \<not> success (scrapeWithoutBrowser onlineEnv (constructor defaultOptions)
         ''https://en.wikipedia.org/wiki/Web_scraping'' [''C++''])
   \<and> error (scrapeWithoutBrowser onlineEnv (constructor defaultOptions)
         ''https://en.wikipedia.org/wiki/Web_scraping'' [''C++''])
       = Some (''Invalid regular expression: /'' @ [CHR 0x5C] @ ''bC++'' @ [CHR 0x5C]
               @ ''b/gi: Nothing to repeat'')
   \<and> success (scrapeWithoutBrowser onlineEnv (constructor defaultOptions)
         ''https://en.wikipedia.org/wiki/Web_scraping'' [''web''])
   \<and> \<not> sublist ''a.c'' ''abc'' \<and> keywordCount offlineEnv ''abc'' ''a.c'' = Inr 1
   \<and> isPlain ''__proto__''
   \<and> spec_count ''the __proto__ key'' ''__proto__'' = 1
   \<and> scoreKeywords offlineEnv ''the __proto__ key'' [''__proto__''] [] = Inr []"
proof (intro conjI)
  show "\<not> isPlain ''C++''"
    by code_simp
  show "keywordPattern ''C++'' = [CHR 0x5C] @ ''bC++'' @ [CHR 0x5C] @ ''b''"
    by code_simp
  show "scoreKeywords offlineEnv ''I like C++ and Rust'' [''C++''] []
       = Inl (SyntaxError (''Invalid regular expression: /'' @ [CHR 0x5C] @ ''bC++'' @ [CHR 0x5C]
               @ ''b/gi: Nothing to repeat''))"
    by code_simp
  show "\<not> success (scrapeWithoutBrowser onlineEnv (constructor defaultOptions)
         ''https://en.wikipedia.org/wiki/Web_scraping'' [''C++''])"
    by code_simp
  show "error (scrapeWithoutBrowser onlineEnv (constructor defaultOptions)
         ''https://en.wikipedia.org/wiki/Web_scraping'' [''C++''])
       = Some (''Invalid regular expression: /'' @ [CHR 0x5C] @ ''bC++'' @ [CHR 0x5C]
               @ ''b/gi: Nothing to repeat'')"
    by code_simp
  show "success (scrapeWithoutBrowser onlineEnv (constructor defaultOptions)
         ''https://en.wikipedia.org/wiki/Web_scraping'' [''web''])"
    by code_simp
  show "\<not> sublist ''a.c'' ''abc''"
    by code_simp
  show "keywordCount offlineEnv ''abc'' ''a.c'' = Inr 1"
    by code_simp
  show "isPlain ''__proto__''"
    by code_simp
  show "spec_count ''the __proto__ key'' ''__proto__'' = 1"
    by code_simp
  show "scoreKeywords offlineEnv ''the __proto__ key'' [''__proto__''] [] = Inr []"
    by code_simp
qed

end
